theory Spec2Isabelle
  imports Complex_Main
begin

section \<open>Numbers and strings of the source\<close>

text \<open>
  The comparison engine is \<^verbatim>\<open>compare-design-systems.js\<close>. Its numbers are JavaScript
  doubles; here a finite number is a \<^typ>\<open>real\<close> and arithmetic is exact. The two values
  of a double that are no real number are kept where the source can produce them:
  \<open>Infinity\<close> (what \<open>deltaE2000\<close> returns for an unparseable colour) and \<open>NaN\<close>
  (what \<open>parseFloat\<close> returns for a string such as \<open>"."\<close>). The colour and spacing
  tokens that the comparison functions work on are lists of characters, read as ASCII;
  the argument of \<open>normalizeColor\<close> is a list of UTF-16 code units.
\<close>

datatype distance = Fin real | Infinity

text \<open>\<open>de < 5\<close> for a distance: \<open>Infinity < 5\<close> is false.\<close>

fun lessThan5 :: "distance \<Rightarrow> bool" where
  "lessThan5 (Fin d) = (d < 5)"
| "lessThan5 Infinity = False"

text \<open>\<open>Math.round\<close>: the nearest integer, a tie going up.\<close>

definition Math_round :: "real \<Rightarrow> int" where
  "Math_round x = \<lfloor>x + 1 / 2\<rfloor>"

text \<open>
  \<open>x.toFixed(2)\<close> is the decimal string of the nearest multiple of 0.01 (a tie going up);
  the model keeps the number of hundredths, and \<open>None\<close> for the string \<open>"Infinity"\<close>.
\<close>

definition toFixed2 :: "real \<Rightarrow> int" where
  "toFixed2 x = \<lfloor>x * 100 + 1 / 2\<rfloor>"

fun distance_toFixed2 :: "distance \<Rightarrow> int option" where
  "distance_toFixed2 (Fin d) = Some (toFixed2 d)"
| "distance_toFixed2 Infinity = None"

definition lowerChar :: "char \<Rightarrow> char" where
  "lowerChar c =
     (case map_of (zip ''ABCDEFGHIJKLMNOPQRSTUVWXYZ'' ''abcdefghijklmnopqrstuvwxyz'') c of
        Some d \<Rightarrow> d
      | None \<Rightarrow> c)"

definition toLowerCase :: "string \<Rightarrow> string" where
  "toLowerCase s = map lowerChar s"


section \<open>Colour utilities\<close>

subsection \<open>\<open>hexToRgb\<close>\<close>

record rgb =
  rgb_r :: nat
  rgb_g :: nat
  rgb_b :: nat

text \<open>One character of the class \<open>[a-f\d]\<close> under the \<open>i\<close> flag, with its value.\<close>

definition hexDigit :: "char \<Rightarrow> nat option" where
  "hexDigit c =
     (let n = (of_char c :: nat) in
      if 48 \<le> n \<and> n \<le> 57 then Some (n - 48)
      else if 97 \<le> n \<and> n \<le> 102 then Some (n - 87)
      else if 65 \<le> n \<and> n \<le> 70 then Some (n - 55)
      else None)"

text \<open>\<open>parseInt(s, 16)\<close> of two characters that are both hexadecimal digits.\<close>

definition parseHex2 :: "char \<Rightarrow> char \<Rightarrow> nat" where
  "parseHex2 c d = 16 * the (hexDigit c) + the (hexDigit d)"

text \<open>\<open>hex.replace('#', '')\<close> removes the first \<open>#\<close>, wherever it stands.\<close>

fun replaceHash :: "string \<Rightarrow> string" where
  "replaceHash [] = []"
| "replaceHash (c # cs) = (if c = CHR ''#'' then cs else c # replaceHash cs)"

definition expand3 :: "string \<Rightarrow> string" where
  "expand3 hex =
     (if length hex = 3
      then [hex ! 0, hex ! 0, hex ! 1, hex ! 1, hex ! 2, hex ! 2]
      else hex)"

definition hexToRgb :: "string \<Rightarrow> rgb option" where
  "hexToRgb hex0 =
     (if hex0 = [] then None
      else
        let hex = expand3 (replaceHash hex0) in
        if length hex = 6 \<and> list_all (\<lambda>c. hexDigit c \<noteq> None) hex
        then Some \<lparr>rgb_r = parseHex2 (hex ! 0) (hex ! 1),
                   rgb_g = parseHex2 (hex ! 2) (hex ! 3),
                   rgb_b = parseHex2 (hex ! 4) (hex ! 5)\<rparr>
        else None)"

subsection \<open>\<open>rgbToLab\<close>\<close>

record lab =
  lab_L :: real
  lab_a :: real
  lab_b :: real

text \<open>The sRGB gamma expansion that \<open>rgbToLab\<close> applies to each channel.\<close>

definition labGamma :: "real \<Rightarrow> real" where
  "labGamma c = (if c > 0.04045 then ((c + 0.055) / 1.055) powr 2.4 else c / 12.92)"

text \<open>The XYZ to Lab companding that \<open>rgbToLab\<close> applies to each of x, y, z.\<close>

definition labF :: "real \<Rightarrow> real" where
  "labF t = (if t > 0.008856 then t powr (1 / 3) else (903.3 * t + 16) / 116)"

definition rgbToLab :: "rgb option \<Rightarrow> lab option" where
  "rgbToLab rgb0 =
     (case rgb0 of
        None \<Rightarrow> None
      | Some rgb \<Rightarrow>
          let r = labGamma (real (rgb_r rgb) / 255) * 100;
              g = labGamma (real (rgb_g rgb) / 255) * 100;
              b = labGamma (real (rgb_b rgb) / 255) * 100;
              x = labF ((r * 0.4124564 + g * 0.3575761 + b * 0.1804375) / 95.047);
              y = labF ((r * 0.2126729 + g * 0.7151522 + b * 0.0721750) / 100.000);
              z = labF ((r * 0.0193339 + g * 0.1191920 + b * 0.9503041) / 108.883)
          in Some \<lparr>lab_L = 116 * y - 16, lab_a = 500 * (x - y), lab_b = 200 * (y - z)\<rparr>)"

subsection \<open>\<open>deltaE2000\<close>\<close>

text \<open>
  \<open>Math.atan2(y, x)\<close> on reals: the angle of the point \<open>(x, y)\<close> in \<open>(-\<pi>, \<pi>]\<close>, and 0 at
  the origin.
\<close>

definition atan2 :: "real \<Rightarrow> real \<Rightarrow> real" where
  "atan2 y x =
     (if x > 0 then arctan (y / x)
      else if x < 0 then (if y \<ge> 0 then arctan (y / x) + pi else arctan (y / x) - pi)
      else if y > 0 then pi / 2
      else if y < 0 then - pi / 2
      else 0)"

text \<open>The steps of \<open>deltaE2000\<close>, one definition for each line of the source.\<close>

definition chroma :: "real \<Rightarrow> real \<Rightarrow> real" where
  "chroma a b = sqrt (a * a + b * b)"

definition compensationG :: "real \<Rightarrow> real" where
  "compensationG Cab = 0.5 * (1 - sqrt (Cab ^ 7 / (Cab ^ 7 + 25 ^ 7)))"

definition hueAdj :: "real \<Rightarrow> real \<Rightarrow> real" where
  "hueAdj b ap = (let hp = atan2 b ap * 180 / pi in if hp < 0 then hp + 360 else hp)"

definition hueDelta :: "real \<Rightarrow> real \<Rightarrow> real \<Rightarrow> real \<Rightarrow> real" where
  "hueDelta C1p C2p h1pAdj h2pAdj =
     (if C1p * C2p = 0 then 0
      else if \<bar>h2pAdj - h1pAdj\<bar> \<le> 180 then h2pAdj - h1pAdj
      else if h2pAdj - h1pAdj > 180 then h2pAdj - h1pAdj - 360
      else h2pAdj - h1pAdj + 360)"

definition hueMean :: "real \<Rightarrow> real \<Rightarrow> real \<Rightarrow> real \<Rightarrow> real" where
  "hueMean C1p C2p h1pAdj h2pAdj =
     (if C1p * C2p = 0 then h1pAdj + h2pAdj
      else if \<bar>h1pAdj - h2pAdj\<bar> \<le> 180 then (h1pAdj + h2pAdj) / 2
      else if h1pAdj + h2pAdj < 360 then (h1pAdj + h2pAdj + 360) / 2
      else (h1pAdj + h2pAdj - 360) / 2)"

definition termT :: "real \<Rightarrow> real" where
  "termT Hp = 1 - 0.17 * cos ((Hp - 30) * pi / 180)
                + 0.24 * cos (2 * Hp * pi / 180)
                + 0.32 * cos ((3 * Hp + 6) * pi / 180)
                - 0.20 * cos ((4 * Hp - 63) * pi / 180)"

definition termDTheta :: "real \<Rightarrow> real" where
  "termDTheta Hp = 30 * exp (- (((Hp - 275) / 25) ^ 2))"

definition termRC :: "real \<Rightarrow> real" where
  "termRC Cp = 2 * sqrt (Cp ^ 7 / (Cp ^ 7 + 25 ^ 7))"

definition termSL :: "real \<Rightarrow> real" where
  "termSL Lp = 1 + (0.015 * (Lp - 50) ^ 2) / sqrt (20 + (Lp - 50) ^ 2)"

definition termSC :: "real \<Rightarrow> real" where
  "termSC Cp = 1 + 0.045 * Cp"

definition termSH :: "real \<Rightarrow> real \<Rightarrow> real" where
  "termSH Cp T = 1 + 0.015 * Cp * T"

definition termRT :: "real \<Rightarrow> real \<Rightarrow> real" where
  "termRT dTheta RC = - sin (2 * dTheta * pi / 180) * RC"

text \<open>
  The last part of \<open>deltaE2000\<close>: the weighting functions and the expression under the
  final square root, from the differences and the means.
\<close>

definition weightedSum :: "real \<Rightarrow> real \<Rightarrow> real \<Rightarrow> real \<Rightarrow> real \<Rightarrow> real \<Rightarrow> real" where
  "weightedSum dLp dCp dHp Lp Cp Hp =
     (let kL = 1; kC = 1; kH = 1;
          T = termT Hp;
          dTheta = termDTheta Hp;
          RC = termRC Cp;
          SL = termSL Lp;
          SC = termSC Cp;
          SH = termSH Cp T;
          RT = termRT dTheta RC
      in (dLp / (kL * SL)) ^ 2 + (dCp / (kC * SC)) ^ 2 + (dHp / (kH * SH)) ^ 2
         + RT * (dCp / (kC * SC)) * (dHp / (kH * SH)))"

text \<open>The expression under the final square root, from the two Lab colours.\<close>

definition radicand2000 :: "lab \<Rightarrow> lab \<Rightarrow> real" where
  "radicand2000 lab1 lab2 =
     (let L1 = lab_L lab1; a1 = lab_a lab1; b1 = lab_b lab1;
          L2 = lab_L lab2; a2 = lab_a lab2; b2 = lab_b lab2;
          C1 = chroma a1 b1;
          C2 = chroma a2 b2;
          Cab = (C1 + C2) / 2;
          G = compensationG Cab;
          a1p = a1 * (1 + G);
          a2p = a2 * (1 + G);
          C1p = chroma a1p b1;
          C2p = chroma a2p b2;
          h1pAdj = hueAdj b1 a1p;
          h2pAdj = hueAdj b2 a2p;
          dLp = L2 - L1;
          dCp = C2p - C1p;
          dhp = hueDelta C1p C2p h1pAdj h2pAdj;
          dHp = 2 * sqrt (C1p * C2p) * sin (dhp * pi / 360);
          Lp = (L1 + L2) / 2;
          Cp = (C1p + C2p) / 2;
          Hp = hueMean C1p C2p h1pAdj h2pAdj
      in weightedSum dLp dCp dHp Lp Cp Hp)"

definition deltaE2000 :: "string \<Rightarrow> string \<Rightarrow> distance" where
  "deltaE2000 hex1 hex2 =
     (case (hexToRgb hex1, hexToRgb hex2) of
        (Some rgb1, Some rgb2) \<Rightarrow>
          (case (rgbToLab (Some rgb1), rgbToLab (Some rgb2)) of
             (Some lab1, Some lab2) \<Rightarrow> Fin (sqrt (radicand2000 lab1 lab2))
           | _ \<Rightarrow> Infinity)
      | _ \<Rightarrow> Infinity)"

text \<open>\<open>const deltaE = deltaE2000\<close>.\<close>

definition deltaE :: "string \<Rightarrow> string \<Rightarrow> distance" where
  "deltaE = deltaE2000"

subsection \<open>\<open>normalizeColor\<close>\<close>

text \<open>
  \<open>normalizeColor\<close> is applied to any string, so its strings are modelled in full: a
  string is the list of its UTF-16 code units, which is what \<open>length\<close>, indexing, \<open>slice\<close>
  and the regular expression work on. \<open>units\<close> gives the code units of an ASCII literal.
\<close>

type_synonym jsstring = "nat list"

definition units :: "string \<Rightarrow> jsstring" where
  "units s = map of_char s"

text \<open>
  What \<open>normalizeColor\<close> returns: \<open>null\<close>, a string, or an object that is no string
  (the lookup \<open>named[color]\<close> also finds what the table inherits from
  \<open>Object.prototype\<close>).
\<close>

datatype jsvalue = JsNull | JsString jsstring | JsObject

text \<open>
  The parameter \<open>color\<close> is untyped. An argument is a string; or a falsy value that is
  no string (\<open>undefined\<close>, \<open>null\<close>, \<open>false\<close>, \<open>0\<close>, \<open>NaN\<close>); or any other value, given with
  the outcome of \<open>String(color)\<close>: a string, or \<open>None\<close> when the conversion throws, as it
  does for an object without a usable \<open>toString\<close>. The empty string is the falsy string.
\<close>

datatype jsarg = StringArg jsstring | FalsyArg | OtherArg "jsstring option"

datatype thrown = Thrown

text \<open>
  \<open>if (!color) return null\<close> and \<open>String(color)\<close>: \<open>Inr None\<close> for the early return,
  \<open>Inl\<close> for an exception.
\<close>

definition stringOfArg :: "jsarg \<Rightarrow> thrown + jsstring option" where
  "stringOfArg color =
     (case color of
        StringArg s \<Rightarrow> Inr (if s = [] then None else Some s)
      | FalsyArg \<Rightarrow> Inr None
      | OtherArg None \<Rightarrow> Inl Thrown
      | OtherArg (Some s) \<Rightarrow> Inr (Some s))"

text \<open>
  White space for \<open>trim\<close> and \<open>\s\<close>, the WhiteSpace and LineTerminator code points of
  ECMAScript: U+0009 to U+000D, U+0020, U+00A0, U+1680, U+2000 to U+200A, U+2028, U+2029,
  U+202F, U+205F, U+3000 and U+FEFF.
\<close>

definition isWhiteSpace :: "nat \<Rightarrow> bool" where
  "isWhiteSpace c =
     (c \<in> set [9, 10, 11, 12, 13, 32, 160, 5760, 8232, 8233, 8239, 8287, 12288, 65279]
      \<or> (8192 \<le> c \<and> c \<le> 8202))"

definition trim :: "jsstring \<Rightarrow> jsstring" where
  "trim s = rev (dropWhile isWhiteSpace (rev (dropWhile isWhiteSpace s)))"

text \<open>
  \<open>toLowerCase\<close> applies the case mapping of Unicode, a table of the runtime and no part
  of the repository; \<open>normalizeColor\<close> takes it as the parameter \<open>lower\<close>. On a string of
  ASCII code units it is \<open>toLowerCaseAscii\<close>.
\<close>

definition toLowerCaseAscii :: "jsstring \<Rightarrow> jsstring" where
  "toLowerCaseAscii s = map (\<lambda>c. if 65 \<le> c \<and> c \<le> 90 then c + 32 else c) s"

text \<open>\<open>\d\<close>: the digits 0 to 9 and no other code unit.\<close>

definition isDecimalDigit :: "nat \<Rightarrow> bool" where
  "isDecimalDigit c = (48 \<le> c \<and> c \<le> 57)"

text \<open>\<open>parseInt\<close> of a string of decimal digits. The model is exact; the source rounds a
  value above \<open>2^53\<close> to a double.\<close>

definition parseInt :: "jsstring \<Rightarrow> nat" where
  "parseInt ds = foldl (\<lambda>acc c. 10 * acc + (c - 48)) 0 ds"

text \<open>\<open>n.toString(16)\<close> and \<open>.padStart(2, '0')\<close>.\<close>

fun toString16 :: "nat \<Rightarrow> string" where
  "toString16 n =
     (if n < 16 then [''0123456789abcdef'' ! n]
      else toString16 (n div 16) @ [''0123456789abcdef'' ! (n mod 16)])"

definition padStart2 :: "string \<Rightarrow> string" where
  "padStart2 s = replicate (2 - length s) (CHR ''0'') @ s"

text \<open>
  A match of \<open>/rgba?\((\d+),\s*(\d+),\s*(\d+)/\<close> that starts at the head of the string,
  with its three groups. The character classes that follow one another are disjoint, so
  every repetition takes its longest run.
\<close>

definition stripPrefix :: "'a list \<Rightarrow> 'a list \<Rightarrow> 'a list option" where
  "stripPrefix pre s = (if take (length pre) s = pre then Some (drop (length pre) s) else None)"

definition rgbMatchAt :: "jsstring \<Rightarrow> (jsstring \<times> jsstring \<times> jsstring) option" where
  "rgbMatchAt s =
     (case stripPrefix (units ''rgb'') s of
        None \<Rightarrow> None
      | Some s1 \<Rightarrow>
          (case stripPrefix (units ''('')
                  (case stripPrefix (units ''a'') s1 of Some s2 \<Rightarrow> s2 | None \<Rightarrow> s1) of
             None \<Rightarrow> None
           | Some s3 \<Rightarrow>
               let d1 = takeWhile isDecimalDigit s3 in
               (case stripPrefix (units '','') (dropWhile isDecimalDigit s3) of
                  None \<Rightarrow> None
                | Some s4 \<Rightarrow>
                    let s5 = dropWhile isWhiteSpace s4; d2 = takeWhile isDecimalDigit s5 in
                    (case stripPrefix (units '','') (dropWhile isDecimalDigit s5) of
                       None \<Rightarrow> None
                     | Some s6 \<Rightarrow>
                         let d3 = takeWhile isDecimalDigit (dropWhile isWhiteSpace s6) in
                         if d1 = [] \<or> d2 = [] \<or> d3 = [] then None
                         else Some (d1, d2, d3)))))"

text \<open>\<open>color.match(...)\<close>: the match at the leftmost position that has one.\<close>

fun rgbMatch :: "jsstring \<Rightarrow> (jsstring \<times> jsstring \<times> jsstring) option" where
  "rgbMatch [] = rgbMatchAt []"
| "rgbMatch (c # cs) =
     (case rgbMatchAt (c # cs) of Some m \<Rightarrow> Some m | None \<Rightarrow> rgbMatch cs)"

text \<open>The table \<open>named\<close>; \<open>transparent\<close> maps to \<open>null\<close>.\<close>

definition named :: "(string \<times> string option) list" where
  "named =
     [(''white'', Some ''#ffffff''), (''black'', Some ''#000000''), (''red'', Some ''#ff0000''),
      (''green'', Some ''#008000''), (''blue'', Some ''#0000ff''), (''transparent'', None),
      (''gray'', Some ''#808080''), (''grey'', Some ''#808080''), (''silver'', Some ''#c0c0c0''),
      (''navy'', Some ''#000080''), (''teal'', Some ''#008080''), (''purple'', Some ''#800080''),
      (''orange'', Some ''#ffa500''), (''yellow'', Some ''#ffff00''), (''lime'', Some ''#00ff00''),
      (''aqua'', Some ''#00ffff''), (''cyan'', Some ''#00ffff''), (''magenta'', Some ''#ff00ff''),
      (''fuchsia'', Some ''#ff00ff''), (''maroon'', Some ''#800000''), (''olive'', Some ''#808000'')]"

text \<open>The table with its keys and values as code units.\<close>

definition namedUnits :: "(jsstring \<times> jsstring option) list" where
  "namedUnits = map (\<lambda>(k, v). (units k, map_option units v)) named"

text \<open>
  The property names of \<open>Object.prototype\<close> that a lower-cased string can be; their
  values are a function and an object.
\<close>

definition inheritedNames :: "jsstring list" where
  "inheritedNames = [units ''constructor'', units ''__proto__'']"

text \<open>\<open>named[color] || null\<close>.\<close>

definition namedLookup :: "jsstring \<Rightarrow> jsvalue" where
  "namedLookup color =
     (case map_of namedUnits color of
        Some (Some hex) \<Rightarrow> JsString hex
      | Some None \<Rightarrow> JsNull
      | None \<Rightarrow> if color \<in> set inheritedNames then JsObject else JsNull)"

text \<open>The function from its second line on, for the string \<open>String(color)\<close>.\<close>

definition normalizeString :: "(jsstring \<Rightarrow> jsstring) \<Rightarrow> jsstring \<Rightarrow> jsvalue" where
  "normalizeString lower s =
     (let color = lower (trim s) in
      case rgbMatch color of
        Some (m1, m2, m3) \<Rightarrow>
          let r = padStart2 (toString16 (parseInt m1));
              g = padStart2 (toString16 (parseInt m2));
              b = padStart2 (toString16 (parseInt m3))
          in JsString (units (''#'' @ r @ g @ b))
      | None \<Rightarrow>
          if take 1 color = units ''#'' then
            (if length color = 4
             then JsString (units ''#'' @ [color ! 1, color ! 1, color ! 2, color ! 2,
                                          color ! 3, color ! 3])
             else JsString (take 7 color))
          else namedLookup color)"

definition normalizeColor :: "(jsstring \<Rightarrow> jsstring) \<Rightarrow> jsarg \<Rightarrow> thrown + jsvalue" where
  "normalizeColor lower color =
     (case stringOfArg color of
        Inl e \<Rightarrow> Inl e
      | Inr None \<Rightarrow> Inr JsNull
      | Inr (Some s) \<Rightarrow> Inr (normalizeString lower s))"


section \<open>Comparison algorithms\<close>

subsection \<open>\<open>compareColors\<close>\<close>

text \<open>
  An entry of a reference colour list is an object \<open>{value, count}\<close>; \<open>value\<close> may be
  missing or \<open>null\<close> in the JSON, which is \<open>None\<close> here.
\<close>

record color_entry =
  entry_value :: "string option"
  entry_count :: nat

record semantic_colors =
  backgrounds :: "color_entry list option"
  text_colors :: "color_entry list option"
  borders :: "color_entry list option"
  accents :: "color_entry list option"

record reference_colors =
  palette :: "color_entry list option"
  semantic :: "semantic_colors option"

text \<open>\<open>list?.map(c => c.value) || []\<close>.\<close>

definition entryValues :: "color_entry list option \<Rightarrow> string option list" where
  "entryValues l = (case l of None \<Rightarrow> [] | Some es \<Rightarrow> map entry_value es)"

text \<open>\<open>[...new Set(xs)]\<close>: the first occurrence of every value, in order.\<close>

definition uniqueValues :: "'a list \<Rightarrow> 'a list" where
  "uniqueValues xs = rev (remdups (rev xs))"

text \<open>\<open>.filter(Boolean)\<close> on values that are strings, \<open>null\<close> or \<open>undefined\<close>.\<close>

definition filterBoolean :: "string option list \<Rightarrow> string list" where
  "filterBoolean vs = concat (map (\<lambda>v. case v of None \<Rightarrow> [] | Some s \<Rightarrow> if s = [] then [] else [s]) vs)"

record 'a token_match =
  project :: 'a
  reference :: 'a

record color_similar = "string token_match" +
  deltaE_fixed :: "int option"

record color_results =
  colors_exact :: "string token_match list"
  colors_similar :: "color_similar list"
  colors_missing :: "string list"
  colors_extra :: "string list"
  colors_score :: int

text \<open>
  The body of the loop over the project colours. The state is \<open>results\<close> and the set
  \<open>matchedRef\<close>. Each of the two inner loops stops at the first reference colour that
  passes its test, which is \<^const>\<open>find\<close>.
\<close>

definition colorStep ::
  "string list \<Rightarrow> color_results \<times> string set \<Rightarrow> string \<Rightarrow> color_results \<times> string set" where
  "colorStep allRefColors st projColor =
     (case st of (results, matchedRef) \<Rightarrow>
        (case find (\<lambda>refColor. toLowerCase projColor = toLowerCase refColor) allRefColors of
           Some refColor \<Rightarrow>
             (results\<lparr>colors_exact := colors_exact results
                        @ [\<lparr>project = projColor, reference = refColor\<rparr>]\<rparr>,
              insert refColor matchedRef)
         | None \<Rightarrow>
             (case find (\<lambda>refColor. refColor \<notin> matchedRef
                                    \<and> lessThan5 (deltaE projColor refColor)) allRefColors of
                Some refColor \<Rightarrow>
                  (results\<lparr>colors_similar := colors_similar results
                             @ [\<lparr>project = projColor, reference = refColor,
                                 deltaE_fixed = distance_toFixed2 (deltaE projColor refColor)\<rparr>]\<rparr>,
                   insert refColor matchedRef)
              | None \<Rightarrow>
                  (results\<lparr>colors_extra := colors_extra results @ [projColor]\<rparr>,
                   matchedRef))))"



text \<open>The reference colours of the palette and the semantic groups, each once.\<close>

definition allRefColors_of :: "reference_colors \<Rightarrow> string list" where
  "allRefColors_of referenceColors =
     (let refPalette = entryValues (palette referenceColors);
          refSemantic =
            (case semantic referenceColors of
               None \<Rightarrow> []
             | Some s \<Rightarrow> entryValues (backgrounds s) @ entryValues (text_colors s)
                          @ entryValues (borders s) @ entryValues (accents s))
      in filterBoolean (uniqueValues (refPalette @ refSemantic)))"

text \<open>The loop over the project colours, from the empty results and the empty set.\<close>

definition colorLoop :: "string list \<Rightarrow> string list \<Rightarrow> color_results \<times> string set" where
  "colorLoop allRefColors projectColorValues =
     foldl (colorStep allRefColors)
       (\<lparr>colors_exact = [], colors_similar = [], colors_missing = [],
         colors_extra = [], colors_score = 0\<rparr>, {})
       projectColorValues"

text \<open>
  \<open>projectColors\<close> is an object from names to colour strings; the list holds its
  properties in the order \<open>Object.values\<close> enumerates them.
\<close>

definition compareColors :: "(string \<times> string) list \<Rightarrow> reference_colors \<Rightarrow> color_results" where
  "compareColors projectColors referenceColors =
     (let allRefColors = allRefColors_of referenceColors;
          projectColorValues = filter (\<lambda>v. v \<noteq> []) (map snd projectColors);
          (results1, matchedRef) = colorLoop allRefColors projectColorValues;
          results2 = results1\<lparr>colors_missing :=
                        filter (\<lambda>refColor. refColor \<notin> matchedRef) allRefColors\<rparr>;
          total = (if length allRefColors = 0 then 1 else length allRefColors)
      in results2\<lparr>colors_score :=
           Math_round (((real (length (colors_exact results2))
                         + real (length (colors_similar results2)) * 0.8) / real total) * 100)\<rparr>)"

subsection \<open>\<open>compareSpacing\<close>\<close>

text \<open>
  A number of the spacing scale after \<open>parseValue\<close>: a finite number or \<open>NaN\<close>.
  A token of the scale is a JSON number or a string such as \<open>"8px"\<close>.
\<close>

datatype jsnum = NaN | Num real

datatype spacing_token = NumberToken real | StringToken string

text \<open>The characters of \<open>\d\<close>, and the value of a string of them.\<close>

definition isDigit :: "char \<Rightarrow> bool" where
  "isDigit c = (c \<in> set ''0123456789'')"

definition digitValue :: "char \<Rightarrow> nat" where
  "digitValue c = of_char c - 48"

definition decimalValue :: "string \<Rightarrow> nat" where
  "decimalValue ds = foldl (\<lambda>acc c. 10 * acc + digitValue c) 0 ds"

text \<open>The value of the digits after a decimal point.\<close>

definition fractionValue :: "string \<Rightarrow> real" where
  "fractionValue ds = foldr (\<lambda>c acc. (real (digitValue c) + acc) / 10) ds 0"

text \<open>
  \<open>parseFloat\<close> on a string of digits and dots: the longest prefix \<open>digits [. digits]\<close>
  with at least one digit, else \<open>NaN\<close>. The value is exact, without rounding and
  without the overflow to \<open>Infinity\<close> of a very long digit string.
\<close>

definition parseFloat :: "string \<Rightarrow> jsnum" where
  "parseFloat s =
     (let intPart = takeWhile isDigit s;
          rest = dropWhile isDigit s;
          fracPart = (case rest of c # cs \<Rightarrow> if c = CHR ''.'' then takeWhile isDigit cs else []
                                 | [] \<Rightarrow> [])
      in if intPart = [] \<and> fracPart = [] then NaN
         else Num (real (decimalValue intPart) + fractionValue fracPart))"

text \<open>The first match of \<open>/([\d.]+)/\<close>: the first maximal run of digits and dots.\<close>

definition firstNumberRun :: "string \<Rightarrow> string option" where
  "firstNumberRun s =
     (let isNum = (\<lambda>c. isDigit c \<or> c = CHR ''.'');
          run = takeWhile isNum (dropWhile (\<lambda>c. \<not> isNum c) s)
      in if run = [] then None else Some run)"

definition parseValue :: "spacing_token \<Rightarrow> jsnum option" where
  "parseValue v =
     (case v of
        NumberToken x \<Rightarrow> Some (Num x)
      | StringToken s \<Rightarrow>
          (case firstNumberRun s of Some run \<Rightarrow> Some (parseFloat run) | None \<Rightarrow> None))"

text \<open>\<open>.map(parseValue).filter(v => v !== null)\<close>.\<close>

definition parseScale :: "spacing_token list \<Rightarrow> jsnum list" where
  "parseScale vs = concat (map (\<lambda>v. case parseValue v of None \<Rightarrow> [] | Some x \<Rightarrow> [x]) vs)"

text \<open>\<open>proj === ref\<close> and \<open>Math.abs(proj - ref) <= 2\<close>; both are false when \<open>NaN\<close> is involved.\<close>

fun strictEquals :: "jsnum \<Rightarrow> jsnum \<Rightarrow> bool" where
  "strictEquals (Num x) (Num y) = (x = y)"
| "strictEquals _ _ = False"

fun within2 :: "jsnum \<Rightarrow> jsnum \<Rightarrow> bool" where
  "within2 (Num x) (Num y) = (\<bar>x - y\<bar> \<le> 2)"
| "within2 _ _ = False"

fun absDiff :: "jsnum \<Rightarrow> jsnum \<Rightarrow> jsnum" where
  "absDiff (Num x) (Num y) = Num \<bar>x - y\<bar>"
| "absDiff _ _ = NaN"

record reference_spacing =
  scale :: "spacing_token list option"

text \<open>
  The source renders every number of the result with the suffix \<open>px\<close>; the model keeps
  the numbers.
\<close>

record spacing_close = "jsnum token_match" +
  diff :: jsnum

record spacing_results =
  spacing_matched :: "jsnum token_match list"
  spacing_close :: "spacing_close list"
  spacing_missing :: "jsnum list"
  spacing_extra :: "jsnum list"
  spacing_score :: int

definition spacingStep ::
  "jsnum list \<Rightarrow> spacing_results \<times> jsnum set \<Rightarrow> jsnum \<Rightarrow> spacing_results \<times> jsnum set" where
  "spacingStep refScale st proj =
     (case st of (results, matchedRef) \<Rightarrow>
        (case find (\<lambda>ref. strictEquals proj ref) refScale of
           Some ref \<Rightarrow>
             (results\<lparr>spacing_matched := spacing_matched results
                        @ [\<lparr>project = proj, reference = ref\<rparr>]\<rparr>,
              insert ref matchedRef)
         | None \<Rightarrow>
             (case find (\<lambda>ref. ref \<notin> matchedRef \<and> within2 proj ref) refScale of
                Some ref \<Rightarrow>
                  (results\<lparr>spacing_close := spacing_close results
                             @ [\<lparr>project = proj, reference = ref, diff = absDiff proj ref\<rparr>]\<rparr>,
                   insert ref matchedRef)
              | None \<Rightarrow>
                  (results\<lparr>spacing_extra := spacing_extra results @ [proj]\<rparr>,
                   matchedRef))))"



definition spacingLoop :: "jsnum list \<Rightarrow> jsnum list \<Rightarrow> spacing_results \<times> jsnum set" where
  "spacingLoop refScale projScale =
     foldl (spacingStep refScale)
       (\<lparr>spacing_matched = [], spacing_close = [], spacing_missing = [],
         spacing_extra = [], spacing_score = 0\<rparr>, {})
       projScale"

definition compareSpacing :: "spacing_token list \<Rightarrow> reference_spacing \<Rightarrow> spacing_results" where
  "compareSpacing projectSpacing referenceSpacing =
     (let refScale = parseScale (case scale referenceSpacing of None \<Rightarrow> [] | Some vs \<Rightarrow> vs);
          projScale = parseScale projectSpacing;
          (results1, matchedRef) = spacingLoop refScale projScale;
          results2 = results1\<lparr>spacing_missing :=
                        filter (\<lambda>ref. ref \<notin> matchedRef) refScale\<rparr>;
          total = (if length refScale = 0 then 1 else length refScale)
      in results2\<lparr>spacing_score :=
           Math_round (((real (length (spacing_matched results2))
                         + real (length (spacing_close results2)) * 0.7) / real total) * 100)\<rparr>)"


section \<open>WCAG accessibility\<close>

text \<open>The gamma expansion of \<open>getLuminance\<close>; its threshold differs from \<open>rgbToLab\<close>'s.\<close>

definition wcagGamma :: "real \<Rightarrow> real" where
  "wcagGamma c = (if c \<le> 0.03928 then c / 12.92 else ((c + 0.055) / 1.055) powr 2.4)"

definition getLuminance :: "string \<Rightarrow> real" where
  "getLuminance hex =
     (case hexToRgb hex of
        None \<Rightarrow> 0
      | Some rgb \<Rightarrow>
          0.2126 * wcagGamma (real (rgb_r rgb) / 255)
          + 0.7152 * wcagGamma (real (rgb_g rgb) / 255)
          + 0.0722 * wcagGamma (real (rgb_b rgb) / 255))"

definition getContrastRatio :: "string \<Rightarrow> string \<Rightarrow> real" where
  "getContrastRatio hex1 hex2 =
     (let l1 = getLuminance hex1;
          l2 = getLuminance hex2;
          lighter = max l1 l2;
          darker = min l1 l2
      in (lighter + 0.05) / (darker + 0.05))"

record wcag_result =
  ratio_fixed :: int
  AA_normalText :: bool
  AA_largeText :: bool
  AA_uiComponents :: bool
  AAA_normalText :: bool
  AAA_largeText :: bool

definition checkWCAG :: "string \<Rightarrow> string \<Rightarrow> wcag_result" where
  "checkWCAG foreground background =
     (let ratio = getContrastRatio foreground background
      in \<lparr>ratio_fixed = toFixed2 ratio,
          AA_normalText = (ratio \<ge> 4.5),
          AA_largeText = (ratio \<ge> 3),
          AA_uiComponents = (ratio \<ge> 3),
          AAA_normalText = (ratio \<ge> 7),
          AAA_largeText = (ratio \<ge> 4.5)\<rparr>)"

datatype severity = Error | Warning

text \<open>The three message templates; the ratio they print is \<open>ratio_fixed\<close>.\<close>

datatype issue_message = Fails_AA_normal_text | Passes_AA_fails_AAA | Accent_hard_to_see

record contrast_issue =
  issue_type :: string
  severity :: severity
  foreground :: string
  background :: string
  wcag :: wcag_result
  message :: issue_message

record contrast_pass =
  pass_foreground :: string
  pass_background :: string
  pass_wcag :: wcag_result

record audit =
  issues :: "contrast_issue list"
  passing :: "contrast_pass list"

text \<open>\<open>!v\<close> for a value that is a string, \<open>null\<close> or \<open>undefined\<close>.\<close>

definition falsy :: "string option \<Rightarrow> bool" where
  "falsy v = (case v of None \<Rightarrow> True | Some s \<Rightarrow> s = [])"

text \<open>The body of the loop over backgrounds and text colours.\<close>

definition textStep :: "string option \<Rightarrow> audit \<Rightarrow> string option \<Rightarrow> audit" where
  "textStep bg st txt =
     (if falsy bg \<or> falsy txt then st
      else
        let result = checkWCAG (the txt) (the bg) in
        if \<not> AA_normalText result then
          st\<lparr>issues := issues st
               @ [\<lparr>issue_type = ''contrast'', severity = Error, foreground = the txt, background = the bg,
                   wcag = result, message = Fails_AA_normal_text\<rparr>]\<rparr>
        else if \<not> AAA_normalText result then
          st\<lparr>issues := issues st
               @ [\<lparr>issue_type = ''contrast'', severity = Warning, foreground = the txt,
                   background = the bg, wcag = result, message = Passes_AA_fails_AAA\<rparr>]\<rparr>
        else
          st\<lparr>passing := passing st
               @ [\<lparr>pass_foreground = the txt, pass_background = the bg,
                   pass_wcag = result\<rparr>]\<rparr>)"

text \<open>The body of the loop over backgrounds and accents.\<close>

definition accentStep :: "string option \<Rightarrow> audit \<Rightarrow> string option \<Rightarrow> audit" where
  "accentStep bg st accent =
     (if falsy bg \<or> falsy accent then st
      else
        let result = checkWCAG (the accent) (the bg) in
        if \<not> AA_uiComponents result then
          st\<lparr>issues := issues st
               @ [\<lparr>issue_type = ''contrast'', severity = Warning, foreground = the accent,
                   background = the bg, wcag = result, message = Accent_hard_to_see\<rparr>]\<rparr>
        else st)"

definition auditAccessibility :: "reference_colors \<Rightarrow> audit" where
  "auditAccessibility colors =
     (let sem = semantic colors;
          bgs = (case sem of None \<Rightarrow> [] | Some s \<Rightarrow> entryValues (backgrounds s));
          textColors = (case sem of None \<Rightarrow> [] | Some s \<Rightarrow> entryValues (text_colors s));
          st1 = foldl (\<lambda>st bg. foldl (textStep bg) st (take 3 textColors))
                  \<lparr>issues = [], passing = []\<rparr> (take 3 bgs);
          accentColors = (case sem of None \<Rightarrow> [] | Some s \<Rightarrow> entryValues (accents s))
      in foldl (\<lambda>st bg. foldl (accentStep bg) st (take 2 accentColors)) st1 (take 2 bgs))"


section \<open>Evaluation rules\<close>

lemmas hex_eval = hexToRgb_def expand3_def hexDigit_def parseHex2_def

lemmas colors_eval = compareColors_def colorLoop_def colorStep_def allRefColors_of_def
  entryValues_def uniqueValues_def filterBoolean_def toLowerCase_def lowerChar_def
  Math_round_def Let_def

lemmas spacing_eval = compareSpacing_def spacingLoop_def spacingStep_def parseScale_def
  parseValue_def firstNumberRun_def parseFloat_def isDigit_def digitValue_def
  decimalValue_def fractionValue_def Math_round_def Let_def

lemmas normalize_eval = normalizeColor_def stringOfArg_def normalizeString_def units_def
  toLowerCaseAscii_def trim_def isWhiteSpace_def rgbMatchAt_def stripPrefix_def
  isDecimalDigit_def parseInt_def padStart2_def namedLookup_def namedUnits_def named_def
  inheritedNames_def Let_def


section \<open>Powers with the exponent 2.4\<close>

text \<open>
  \<open>p powr 2.4\<close> is the fifth root of \<open>p ^ 12\<close>, so a rational bound on it is a comparison
  of two rational powers.
\<close>

lemma root5_power5:
  fixes q :: real
  assumes "0 \<le> q"
  shows "(q ^ 5) powr (1 / 5) = q"
proof (cases "q = 0")
  case True
  then show ?thesis by simp
next
  case False
  with assms have q: "0 < q" by simp
  have "q ^ 5 = q powr 5"
    using q by simp
  then have "(q ^ 5) powr (1 / 5) = (q powr 5) powr (1 / 5)"
    by (rule arg_cong)
  also have "\<dots> = q powr (5 * (1 / 5))"
    by (rule powr_powr)
  finally show ?thesis
    using q by simp
qed

lemma powr_24_gt:
  fixes p q :: real
  assumes "0 < p" "0 \<le> q" "q ^ 5 < p ^ 12"
  shows "q < p powr 2.4"
proof -
  have "p powr 2.4 = (p powr 12) powr (1 / 5)"
    by (simp add: powr_powr)
  also have "\<dots> = (p ^ 12) powr (1 / 5)"
    using assms(1) by simp
  finally have e: "p powr 2.4 = (p ^ 12) powr (1 / 5)" .
  have f: "q = (q ^ 5) powr (1 / 5)"
    by (rule root5_power5 [OF assms(2), symmetric])
  have "(q ^ 5) powr (1 / 5) < (p ^ 12) powr (1 / 5)"
    using assms by (intro powr_less_mono2) simp_all
  with e f show ?thesis by simp
qed

lemma powr_24_lt:
  fixes p q :: real
  assumes "0 < p" "0 \<le> q" "p ^ 12 < q ^ 5"
  shows "p powr 2.4 < q"
proof -
  have "p powr 2.4 = (p powr 12) powr (1 / 5)"
    by (simp add: powr_powr)
  also have "\<dots> = (p ^ 12) powr (1 / 5)"
    using assms(1) by simp
  finally have e: "p powr 2.4 = (p ^ 12) powr (1 / 5)" .
  have f: "q = (q ^ 5) powr (1 / 5)"
    by (rule root5_power5 [OF assms(2), symmetric])
  have "(p ^ 12) powr (1 / 5) < (q ^ 5) powr (1 / 5)"
    using assms by (intro powr_less_mono2) simp_all
  with e f show ?thesis by simp
qed


section \<open>Contrast ratio\<close>

lemma wcagGamma_nonneg: "0 \<le> c \<Longrightarrow> 0 \<le> wcagGamma c"
  by (simp add: wcagGamma_def)

lemma getLuminance_nonneg: "0 \<le> getLuminance hex"
  by (auto simp: getLuminance_def wcagGamma_nonneg split: option.splits)

text \<open>
  C10. For every pair of colour strings, parseable or not, \<open>getContrastRatio\<close> gives the
  same ratio in both argument orders, and the ratio is at least 1.
\<close>

theorem getContrastRatio_symmetric_ge1:
  "getContrastRatio hex1 hex2 = getContrastRatio hex2 hex1 \<and> 1 \<le> getContrastRatio hex1 hex2"
proof -
  have a: "0 \<le> getLuminance hex1" and b: "0 \<le> getLuminance hex2"
    by (rule getLuminance_nonneg)+
  show ?thesis
    using a b by (simp add: getContrastRatio_def Let_def max.commute min.commute)
qed

subsection \<open>The audit of \<open>#767676\<close> on \<open>#ffffff\<close>\<close>

lemma lum_white: "getLuminance ''#ffffff'' = 1"
  by (simp add: getLuminance_def hex_eval wcagGamma_def)

lemma lum_767676: "0.1811 < getLuminance ''#767676'' \<and> getLuminance ''#767676'' < 0.1813"
proof -
  define p :: real where "p = (118 / 255 + 0.055) / 1.055"
  have p: "0 < p" by (simp add: p_def)
  have lo: "(0.1811::real) ^ 5 < p ^ 12" by (simp add: p_def divide_simps)
  have hi: "p ^ 12 < (0.1813 :: real) ^ 5" by (simp add: p_def divide_simps)
  have "0.1811 < p powr 2.4" by (rule powr_24_gt [OF p _ lo]) simp
  moreover have "p powr 2.4 < 0.1813" by (rule powr_24_lt [OF p _ hi]) simp
  moreover have "getLuminance ''#767676'' = p powr 2.4"
    by (simp add: getLuminance_def hex_eval wcagGamma_def p_def)
  ultimately show ?thesis by simp
qed

lemma ratio_767676:
  "4.5395 < getContrastRatio ''#767676'' ''#ffffff'' \<and>
   getContrastRatio ''#767676'' ''#ffffff'' < 4.5435"
proof -
  define l where "l = getLuminance ''#767676''"
  have l: "0.1811 < l" "l < 0.1813"
    using lum_767676 by (simp_all add: l_def)
  have r: "getContrastRatio ''#767676'' ''#ffffff'' = 1.05 / (l + 0.05)"
    using l by (simp add: getContrastRatio_def Let_def lum_white l_def [symmetric])
  have pos: "0 < l + 0.05" using l by simp
  have "4.5395 * (l + 0.05) < 1.05" using l by simp
  then have lo: "4.5395 < 1.05 / (l + 0.05)"
    using pos by (simp add: pos_less_divide_eq)
  have "1.05 < 4.5435 * (l + 0.05)" using l by simp
  then have hi: "1.05 / (l + 0.05) < 4.5435"
    using pos by (simp add: pos_divide_less_eq)
  from lo hi r show ?thesis by simp
qed

lemma checkWCAG_767676:
  "checkWCAG ''#767676'' ''#ffffff'' =
     \<lparr>ratio_fixed = 454, AA_normalText = True, AA_largeText = True, AA_uiComponents = True,
      AAA_normalText = False, AAA_largeText = True\<rparr>"
proof -
  define x where "x = getContrastRatio ''#767676'' ''#ffffff''"
  have x: "4.5395 < x" "x < 4.5435"
    using ratio_767676 by (simp_all add: x_def)
  have "toFixed2 x = 454"
    unfolding toFixed2_def using x by (intro floor_unique) simp_all
  then show ?thesis
    using x by (simp add: checkWCAG_def Let_def x_def [symmetric])
qed

text \<open>
  C9. The audit of a reference with the one background \<open>#ffffff\<close> and the one text colour
  \<open>#767676\<close> reports exactly one issue, of severity warning, and nothing passing: the
  ratio is at least 4.5 and below 7, within 0.005 of 4.54, and prints as \<open>4.54\<close>.
\<close>

theorem audit_767676_on_white_is_warning:
  "auditAccessibility
     \<lparr>palette = None,
      semantic = Some \<lparr>backgrounds = Some [\<lparr>entry_value = Some ''#ffffff'', entry_count = 1\<rparr>],
                       text_colors = Some [\<lparr>entry_value = Some ''#767676'', entry_count = 1\<rparr>],
                       borders = None, accents = None\<rparr>\<rparr>
   = \<lparr>issues = [\<lparr>issue_type = ''contrast'', severity = Warning,
                  foreground = ''#767676'', background = ''#ffffff'',
                  wcag = \<lparr>ratio_fixed = 454, AA_normalText = True, AA_largeText = True,
                          AA_uiComponents = True, AAA_normalText = False,
                          AAA_largeText = True\<rparr>,
                  message = Passes_AA_fails_AAA\<rparr>],
      passing = []\<rparr>
   \<and> 4.5 \<le> getContrastRatio ''#767676'' ''#ffffff''
   \<and> getContrastRatio ''#767676'' ''#ffffff'' < 7
   \<and> \<bar>getContrastRatio ''#767676'' ''#ffffff'' - 4.54\<bar> < 0.005"
proof -
  define x where "x = getContrastRatio ''#767676'' ''#ffffff''"
  have x: "4.5395 < x" "x < 4.5435"
    using ratio_767676 by (simp_all add: x_def)
  have bounds: "4.5 \<le> x \<and> x < 7 \<and> \<bar>x - 4.54\<bar> < 0.005"
    using x by (simp add: abs_if)
  show ?thesis
    using bounds unfolding x_def
    by (simp add: auditAccessibility_def entryValues_def textStep_def falsy_def
        checkWCAG_767676 Let_def)
qed


section \<open>Perceptual distance\<close>

subsection \<open>Bounds on the weighting functions\<close>

lemma chroma_nonneg: "0 \<le> chroma a b"
  by (simp add: chroma_def)

lemma ratio7_bounds:
  fixes c :: real
  assumes "0 \<le> c"
  shows "0 \<le> c ^ 7 / (c ^ 7 + 25 ^ 7)" and "c ^ 7 / (c ^ 7 + 25 ^ 7) < 1"
proof -
  have c7: "0 \<le> c ^ 7" using assms by simp
  then show "0 \<le> c ^ 7 / (c ^ 7 + 25 ^ 7)" by simp
  have "c ^ 7 < c ^ 7 + 25 ^ 7" by simp
  moreover have "0 < c ^ 7 + 25 ^ 7" using c7 by (simp add: add_nonneg_pos)
  ultimately show "c ^ 7 / (c ^ 7 + 25 ^ 7) < 1" by (simp only: divide_less_eq_1_pos)
qed

lemma compensationG_bounds:
  assumes "0 \<le> Cab"
  shows "0 < compensationG Cab" and "compensationG Cab \<le> 1 / 2"
proof -
  let ?q = "Cab ^ 7 / (Cab ^ 7 + 25 ^ 7)"
  have "0 \<le> ?q" "?q < 1" using ratio7_bounds [OF assms] by simp_all
  then have "0 \<le> sqrt ?q" "sqrt ?q < 1"
    by (simp_all only: real_sqrt_ge_zero real_sqrt_lt_1_iff)
  then show "0 < compensationG Cab" and "compensationG Cab \<le> 1 / 2"
    by (simp_all add: compensationG_def)
qed

lemma termRC_bounds:
  assumes "0 \<le> Cp"
  shows "0 \<le> termRC Cp" and "termRC Cp < 2"
proof -
  let ?q = "Cp ^ 7 / (Cp ^ 7 + 25 ^ 7)"
  have "0 \<le> ?q" "?q < 1" using ratio7_bounds [OF assms] by simp_all
  then have "0 \<le> sqrt ?q" "sqrt ?q < 1"
    by (simp_all only: real_sqrt_ge_zero real_sqrt_lt_1_iff)
  then show "0 \<le> termRC Cp" and "termRC Cp < 2"
    by (simp_all add: termRC_def)
qed

lemma termRT_abs:
  assumes "0 \<le> RC"
  shows "\<bar>termRT dTheta RC\<bar> \<le> RC"
proof -
  have "\<bar>termRT dTheta RC\<bar> = \<bar>sin (2 * dTheta * pi / 180)\<bar> * RC"
    using assms by (simp add: termRT_def abs_mult)
  also have "\<dots> \<le> 1 * RC"
    using assms by (intro mult_right_mono) simp_all
  finally show ?thesis by simp
qed

lemma termSL_ge1: "1 \<le> termSL Lp"
  by (simp add: termSL_def)

lemma termSC_ge1: "0 \<le> Cp \<Longrightarrow> 1 \<le> termSC Cp"
  by (simp add: termSC_def)

lemma termT_linear:
  fixes c1 c2 c3 c4 :: real
  assumes "c1 \<le> 1" "- 1 \<le> c2" "- 1 \<le> c3" "c4 \<le> 1"
  shows "0.07 \<le> 1 - 0.17 * c1 + 0.24 * c2 + 0.32 * c3 - 0.20 * c4"
  using assms by simp

lemma termT_lower: "0.07 \<le> termT Hp"
  unfolding termT_def by (rule termT_linear) simp_all

lemma termSH_ge1:
  assumes "0 \<le> Cp"
  shows "1 \<le> termSH Cp (termT Hp)"
proof -
  have "0 \<le> termT Hp" using termT_lower [of Hp] by simp
  then have "0 \<le> Cp * termT Hp" using assms by simp
  then show ?thesis by (simp add: termSH_def)
qed

lemma cross_term_bound:
  fixes x y z r :: real
  assumes "\<bar>r\<bar> \<le> 2"
  shows "0 \<le> x\<^sup>2 + y\<^sup>2 + z\<^sup>2 + r * y * z"
proof -
  have "\<bar>r * y * z\<bar> = \<bar>r\<bar> * (\<bar>y\<bar> * \<bar>z\<bar>)"
    by (simp add: abs_mult)
  also have "\<dots> \<le> 2 * (\<bar>y\<bar> * \<bar>z\<bar>)"
    using assms by (intro mult_right_mono) simp_all
  also have "\<dots> \<le> \<bar>y\<bar>\<^sup>2 + \<bar>z\<bar>\<^sup>2"
    using sum_squares_bound [of "\<bar>y\<bar>" "\<bar>z\<bar>"] by simp
  finally have "\<bar>r * y * z\<bar> \<le> y\<^sup>2 + z\<^sup>2" by simp
  moreover have "0 \<le> x\<^sup>2" by simp
  ultimately show ?thesis by linarith
qed

lemma weightedSum_nonneg:
  assumes "0 \<le> Cp"
  shows "0 \<le> weightedSum dLp dCp dHp Lp Cp Hp"
proof -
  have "\<bar>termRT (termDTheta Hp) (termRC Cp)\<bar> \<le> 2"
    using termRT_abs [of "termRC Cp" "termDTheta Hp"] termRC_bounds [OF assms] by simp
  then have "0 \<le> (dLp / (1 * termSL Lp))\<^sup>2 + (dCp / (1 * termSC Cp))\<^sup>2
      + (dHp / (1 * termSH Cp (termT Hp)))\<^sup>2
      + termRT (termDTheta Hp) (termRC Cp) * (dCp / (1 * termSC Cp))
        * (dHp / (1 * termSH Cp (termT Hp)))"
    by (rule cross_term_bound)
  then show ?thesis
    unfolding weightedSum_def Let_def .
qed

lemma weightedSum_neg:
  "weightedSum (- dLp) (- dCp) (- dHp) Lp Cp Hp = weightedSum dLp dCp dHp Lp Cp Hp"
  by (simp add: weightedSum_def Let_def)

lemma hueDelta_swap: "hueDelta C2p C1p h2 h1 = - hueDelta C1p C2p h1 h2"
  by (auto simp: hueDelta_def)

lemma hueMean_swap: "hueMean C2p C1p h2 h1 = hueMean C1p C2p h1 h2"
  by (auto simp: hueMean_def add.commute)

subsection \<open>The expression under the square root\<close>

lemma radicand2000_nonneg: "0 \<le> radicand2000 lab1 lab2"
  unfolding radicand2000_def Let_def
  by (intro weightedSum_nonneg) (simp add: chroma_nonneg)

lemma radicand2000_commute: "radicand2000 lab1 lab2 = radicand2000 lab2 lab1"
proof -
  define G where "G = compensationG ((chroma (lab_a lab1) (lab_b lab1) + chroma (lab_a lab2) (lab_b lab2)) / 2)"
  define C1p where "C1p = chroma (lab_a lab1 * (1 + G)) (lab_b lab1)"
  define C2p where "C2p = chroma (lab_a lab2 * (1 + G)) (lab_b lab2)"
  define h1 where "h1 = hueAdj (lab_b lab1) (lab_a lab1 * (1 + G))"
  define h2 where "h2 = hueAdj (lab_b lab2) (lab_a lab2 * (1 + G))"
  define dhp where "dhp = hueDelta C1p C2p h1 h2"
  have G': "compensationG ((chroma (lab_a lab2) (lab_b lab2) + chroma (lab_a lab1) (lab_b lab1)) / 2) = G"
    by (simp add: G_def add.commute)
  have l: "radicand2000 lab1 lab2 =
      weightedSum (lab_L lab2 - lab_L lab1) (C2p - C1p) (2 * sqrt (C1p * C2p) * sin (dhp * pi / 360))
        ((lab_L lab1 + lab_L lab2) / 2) ((C1p + C2p) / 2) (hueMean C1p C2p h1 h2)"
    by (simp add: radicand2000_def Let_def G_def C1p_def C2p_def h1_def h2_def dhp_def)
  have r: "radicand2000 lab2 lab1 =
      weightedSum (lab_L lab1 - lab_L lab2) (C1p - C2p) (2 * sqrt (C2p * C1p) * sin (hueDelta C2p C1p h2 h1 * pi / 360))
        ((lab_L lab2 + lab_L lab1) / 2) ((C2p + C1p) / 2) (hueMean C2p C1p h2 h1)"
    unfolding radicand2000_def Let_def G'
    by (simp add: C1p_def C2p_def h1_def h2_def)
  have "radicand2000 lab2 lab1 =
      weightedSum (- (lab_L lab2 - lab_L lab1)) (- (C2p - C1p)) (- (2 * sqrt (C1p * C2p) * sin (dhp * pi / 360)))
        ((lab_L lab1 + lab_L lab2) / 2) ((C1p + C2p) / 2) (hueMean C1p C2p h1 h2)"
    unfolding r hueDelta_swap [of C2p C1p h2 h1] hueMean_swap [of C2p C1p h2 h1]
    by (simp add: dhp_def mult.commute add.commute)
  then show ?thesis
    unfolding l by (simp only: weightedSum_neg)
qed

lemma deltaE2000_commute: "deltaE2000 hex1 hex2 = deltaE2000 hex2 hex1"
  by (simp add: deltaE2000_def rgbToLab_def Let_def radicand2000_commute split: option.splits)

text \<open>
  C6. \<open>deltaE2000\<close> gives the same value in both argument orders, for every pair of
  colour strings: the same real number when both parse, \<open>Infinity\<close> when one does not.
\<close>

theorem deltaE2000_symmetric: "deltaE2000 hex1 hex2 = deltaE2000 hex2 hex1"
  by (rule deltaE2000_commute)

text \<open>
  C8. For every pair of inputs \<open>deltaE2000\<close> returns a real number that is not negative
  when both inputs parse, and \<open>Infinity\<close> exactly when one of them does not; the
  expression under the final square root is never negative, whatever the two Lab
  colours are.
\<close>

theorem deltaE2000_nonneg:
  "(case deltaE2000 hex1 hex2 of
      Fin d \<Rightarrow> 0 \<le> d \<and> hexToRgb hex1 \<noteq> None \<and> hexToRgb hex2 \<noteq> None
    | Infinity \<Rightarrow> hexToRgb hex1 = None \<or> hexToRgb hex2 = None)
   \<and> 0 \<le> radicand2000 lab1 lab2"
  by (auto simp: deltaE2000_def rgbToLab_def Let_def radicand2000_nonneg split: option.splits)

subsection \<open>When the distance is zero\<close>

text \<open>
  The cross term cannot cancel the squares: \<open>RT\<close> is smaller than 2 in absolute value.
\<close>

lemma cross_term_zero:
  fixes x y z r :: real
  assumes r: "\<bar>r\<bar> < 2" and eq: "x\<^sup>2 + y\<^sup>2 + z\<^sup>2 + r * y * z = 0"
  shows "x = 0 \<and> y = 0 \<and> z = 0"
proof -
  have yz: "2 * (\<bar>y\<bar> * \<bar>z\<bar>) \<le> y\<^sup>2 + z\<^sup>2"
    using sum_squares_bound [of "\<bar>y\<bar>" "\<bar>z\<bar>"] by simp
  have "\<bar>r * y * z\<bar> = \<bar>r\<bar> * (\<bar>y\<bar> * \<bar>z\<bar>)"
    by (simp add: abs_mult)
  also have "\<dots> = (\<bar>r\<bar> / 2) * (2 * (\<bar>y\<bar> * \<bar>z\<bar>))"
    by simp
  also have "\<dots> \<le> (\<bar>r\<bar> / 2) * (y\<^sup>2 + z\<^sup>2)"
    using yz by (intro mult_left_mono) simp_all
  finally have b: "\<bar>r * y * z\<bar> \<le> (\<bar>r\<bar> / 2) * (y\<^sup>2 + z\<^sup>2)" .
  have "x\<^sup>2 + (1 - \<bar>r\<bar> / 2) * (y\<^sup>2 + z\<^sup>2) \<le> x\<^sup>2 + y\<^sup>2 + z\<^sup>2 + r * y * z"
    using b by (simp add: algebra_simps abs_le_iff)
  then have le: "x\<^sup>2 + (1 - \<bar>r\<bar> / 2) * (y\<^sup>2 + z\<^sup>2) \<le> 0"
    using eq by simp
  have p: "0 < 1 - \<bar>r\<bar> / 2" using r by simp
  have n: "0 \<le> (1 - \<bar>r\<bar> / 2) * (y\<^sup>2 + z\<^sup>2)" using p by simp
  have "x\<^sup>2 \<le> 0" using le n by linarith
  then have x0: "x\<^sup>2 = 0" by simp
  then have "(1 - \<bar>r\<bar> / 2) * (y\<^sup>2 + z\<^sup>2) = 0"
    using le n by simp
  then have "y\<^sup>2 + z\<^sup>2 = 0" using p by simp
  with x0 show ?thesis by simp
qed

lemma weightedSum_zero:
  assumes Cp: "0 \<le> Cp" and eq: "weightedSum dLp dCp dHp Lp Cp Hp = 0"
  shows "dLp = 0 \<and> dCp = 0 \<and> dHp = 0"
proof -
  have "\<bar>termRT (termDTheta Hp) (termRC Cp)\<bar> < 2"
    using termRT_abs [of "termRC Cp" "termDTheta Hp"] termRC_bounds [OF Cp] by simp
  moreover have "(dLp / (1 * termSL Lp))\<^sup>2 + (dCp / (1 * termSC Cp))\<^sup>2
      + (dHp / (1 * termSH Cp (termT Hp)))\<^sup>2
      + termRT (termDTheta Hp) (termRC Cp) * (dCp / (1 * termSC Cp))
        * (dHp / (1 * termSH Cp (termT Hp))) = 0"
    using eq unfolding weightedSum_def Let_def .
  ultimately have z: "dLp / (1 * termSL Lp) = 0 \<and> dCp / (1 * termSC Cp) = 0
      \<and> dHp / (1 * termSH Cp (termT Hp)) = 0"
    by (rule cross_term_zero)
  have "termSL Lp \<noteq> 0" using termSL_ge1 [of Lp] by simp
  moreover have "termSC Cp \<noteq> 0" using termSC_ge1 [OF Cp] by simp
  moreover have "termSH Cp (termT Hp) \<noteq> 0" using termSH_ge1 [OF Cp, of Hp] by simp
  ultimately show ?thesis using z by simp
qed

lemma chroma_factor:
  fixes x y :: real
  assumes "x \<noteq> 0"
  shows "chroma x y = \<bar>x\<bar> * sqrt (1 + (y / x)\<^sup>2)"
proof -
  have "x * x + y * y = x\<^sup>2 * (1 + (y / x)\<^sup>2)"
    using assms by (simp add: power2_eq_square field_simps)
  then show ?thesis
    by (simp add: chroma_def real_sqrt_mult)
qed

lemma atan2_polar:
  assumes "x \<noteq> 0 \<or> y \<noteq> 0"
  shows "chroma x y * cos (atan2 y x) = x" and "chroma x y * sin (atan2 y x) = y"
proof -
  have s: "sqrt (1 + (y / x)\<^sup>2) \<noteq> 0"
    by (metis add_nonneg_eq_0_iff real_sqrt_eq_zero_cancel_iff zero_le_power2 zero_neq_one zero_le_one)
  consider (pos) "0 < x" | (neg) "x < 0" | (up) "x = 0" "0 < y" | (down) "x = 0" "y < 0"
    using assms by fastforce
  then have "chroma x y * cos (atan2 y x) = x \<and> chroma x y * sin (atan2 y x) = y"
  proof cases
    case pos
    then show ?thesis
      using s by (simp add: atan2_def chroma_factor cos_arctan sin_arctan)
  next
    case neg
    then show ?thesis
      using s by (simp add: atan2_def chroma_factor cos_arctan sin_arctan)
  next
    case up
    then show ?thesis by (simp add: atan2_def chroma_def)
  next
    case down
    then show ?thesis by (simp add: atan2_def chroma_def)
  qed
  then show "chroma x y * cos (atan2 y x) = x" and "chroma x y * sin (atan2 y x) = y"
    by simp_all
qed

lemma atan2_range: "- pi < atan2 y x \<and> atan2 y x \<le> pi"
proof -
  have b: "- (pi / 2) < arctan (y / x)" "arctan (y / x) < pi / 2"
    by (rule arctan_lbound, rule arctan_ubound)
  have neg: "x < 0 \<Longrightarrow> 0 \<le> y \<Longrightarrow> arctan (y / x) \<le> 0"
    by (simp add: divide_nonneg_neg)
  have neg2: "x < 0 \<Longrightarrow> y < 0 \<Longrightarrow> 0 < arctan (y / x)"
    by (simp add: divide_neg_neg)
  show ?thesis
    using b neg neg2 pi_gt_zero by (auto simp: atan2_def)
qed

lemma hueAdj_range: "0 \<le> hueAdj b a \<and> hueAdj b a < 360"
proof -
  have r: "- pi < atan2 b a" "atan2 b a \<le> pi"
    using atan2_range [of b a] by simp_all
  have "- 180 < atan2 b a * 180 / pi"
    using r(1) pi_gt_zero by (simp add: field_simps)
  moreover have "atan2 b a * 180 / pi \<le> 180"
    using r(2) pi_gt_zero by (simp add: field_simps)
  ultimately show ?thesis
    by (auto simp: hueAdj_def Let_def)
qed

lemma hueAdj_inj:
  assumes "hueAdj b1 a1 = hueAdj b2 a2"
  shows "atan2 b1 a1 = atan2 b2 a2"
proof -
  define d1 where "d1 = atan2 b1 a1 * 180 / pi"
  define d2 where "d2 = atan2 b2 a2 * 180 / pi"
  have r1: "- pi < atan2 b1 a1" "atan2 b1 a1 \<le> pi"
    using atan2_range [of b1 a1] by simp_all
  have r2: "- pi < atan2 b2 a2" "atan2 b2 a2 \<le> pi"
    using atan2_range [of b2 a2] by simp_all
  have d1: "- 180 < d1" "d1 \<le> 180"
    using r1 pi_gt_zero by (simp_all add: d1_def field_simps)
  have d2: "- 180 < d2" "d2 \<le> 180"
    using r2 pi_gt_zero by (simp_all add: d2_def field_simps)
  have "hueAdj b1 a1 = (if d1 < 0 then d1 + 360 else d1)"
    by (simp add: hueAdj_def Let_def d1_def)
  moreover have "hueAdj b2 a2 = (if d2 < 0 then d2 + 360 else d2)"
    by (simp add: hueAdj_def Let_def d2_def)
  ultimately have "(if d1 < 0 then d1 + 360 else d1) = (if d2 < 0 then d2 + 360 else d2)"
    using assms by simp
  then have "d1 = d2"
    using d1 d2 by (auto split: if_splits)
  then show ?thesis
    using pi_gt_zero by (simp add: d1_def d2_def)
qed

lemma hueDelta_sin_zero:
  assumes h1: "0 \<le> h1" "h1 < 360" and h2: "0 \<le> h2" "h2 < 360"
    and C: "C1p * C2p \<noteq> 0"
    and z: "sin (hueDelta C1p C2p h1 h2 * pi / 360) = 0"
  shows "h1 = h2"
proof -
  define d where "d = hueDelta C1p C2p h1 h2"
  have range: "- 360 < d \<and> d < 360"
    using h1 h2 C by (auto simp: d_def hueDelta_def)
  have "- 1 < d / 360" "d / 360 < 1"
    using range by simp_all
  then have "(- 1) * pi < (d / 360) * pi" "(d / 360) * pi < 1 * pi"
    using pi_gt_zero by (simp_all only: mult_strict_right_mono)
  then have "- pi < d * pi / 360" "d * pi / 360 < pi"
    by simp_all
  then have "d * pi / 360 = 0"
    using z unfolding d_def by (rule sin_eq_0_pi)
  then have "d = 0" using pi_gt_zero by simp
  then show ?thesis
    using h1 h2 C by (auto simp: d_def hueDelta_def split: if_splits)
qed

lemma chroma_zero: "chroma a b = 0 \<Longrightarrow> a = 0 \<and> b = 0"
  by (simp add: chroma_def)

lemma radicand2000_zero_imp_equal:
  assumes "radicand2000 lab1 lab2 = 0"
  shows "lab1 = lab2"
proof -
  define G where "G = compensationG ((chroma (lab_a lab1) (lab_b lab1) + chroma (lab_a lab2) (lab_b lab2)) / 2)"
  define a1p where "a1p = lab_a lab1 * (1 + G)"
  define a2p where "a2p = lab_a lab2 * (1 + G)"
  define C1p where "C1p = chroma a1p (lab_b lab1)"
  define C2p where "C2p = chroma a2p (lab_b lab2)"
  define h1 where "h1 = hueAdj (lab_b lab1) a1p"
  define h2 where "h2 = hueAdj (lab_b lab2) a2p"
  have G: "0 < 1 + G"
    using compensationG_bounds(1) [of "(chroma (lab_a lab1) (lab_b lab1) + chroma (lab_a lab2) (lab_b lab2)) / 2"]
      chroma_nonneg [of "lab_a lab1" "lab_b lab1"] chroma_nonneg [of "lab_a lab2" "lab_b lab2"]
    by (simp add: G_def)
  have C: "0 \<le> C1p" "0 \<le> C2p"
    by (simp_all add: C1p_def C2p_def chroma_nonneg)
  have "radicand2000 lab1 lab2 = weightedSum (lab_L lab2 - lab_L lab1) (C2p - C1p)
          (2 * sqrt (C1p * C2p) * sin (hueDelta C1p C2p h1 h2 * pi / 360))
          ((lab_L lab1 + lab_L lab2) / 2) ((C1p + C2p) / 2) (hueMean C1p C2p h1 h2)"
    unfolding radicand2000_def Let_def C1p_def C2p_def h1_def h2_def a1p_def a2p_def G_def
    by (rule refl)
  with assms have "weightedSum (lab_L lab2 - lab_L lab1) (C2p - C1p)
          (2 * sqrt (C1p * C2p) * sin (hueDelta C1p C2p h1 h2 * pi / 360))
          ((lab_L lab1 + lab_L lab2) / 2) ((C1p + C2p) / 2) (hueMean C1p C2p h1 h2) = 0"
    by simp
  moreover have "0 \<le> (C1p + C2p) / 2"
    using C by simp
  ultimately have "lab_L lab2 - lab_L lab1 = 0 \<and> C2p - C1p = 0
      \<and> 2 * sqrt (C1p * C2p) * sin (hueDelta C1p C2p h1 h2 * pi / 360) = 0"
    by (rule weightedSum_zero [rotated])
  then have z: "lab_L lab2 - lab_L lab1 = 0" "C2p - C1p = 0"
      "2 * sqrt (C1p * C2p) * sin (hueDelta C1p C2p h1 h2 * pi / 360) = 0"
    by blast+
  have L: "lab_L lab1 = lab_L lab2" using z(1) by simp
  have Ceq: "C1p = C2p" using z(2) by simp
  have ab: "a1p = a2p \<and> lab_b lab1 = lab_b lab2"
  proof (cases "C1p = 0")
    case True
    with Ceq have "chroma a1p (lab_b lab1) = 0" "chroma a2p (lab_b lab2) = 0"
      by (simp_all add: C1p_def C2p_def)
    then show ?thesis
      using chroma_zero [of a1p "lab_b lab1"] chroma_zero [of a2p "lab_b lab2"] by simp
  next
    case False
    with Ceq have nz: "C1p * C2p \<noteq> 0" by simp
    then have "sqrt (C1p * C2p) \<noteq> 0"
      using C by simp
    with z(3) have "sin (hueDelta C1p C2p h1 h2 * pi / 360) = 0" by simp
    then have "h1 = h2"
      using hueAdj_range [of "lab_b lab1" a1p] hueAdj_range [of "lab_b lab2" a2p] nz
      by (intro hueDelta_sin_zero [of h1 h2 C1p C2p]) (simp_all add: h1_def h2_def)
    then have th: "atan2 (lab_b lab1) a1p = atan2 (lab_b lab2) a2p"
      unfolding h1_def h2_def by (rule hueAdj_inj)
    have n1: "a1p \<noteq> 0 \<or> lab_b lab1 \<noteq> 0"
      using False by (auto simp: C1p_def chroma_def)
    have n2: "a2p \<noteq> 0 \<or> lab_b lab2 \<noteq> 0"
      using False Ceq by (auto simp: C2p_def chroma_def)
    have "a1p = C1p * cos (atan2 (lab_b lab1) a1p)"
      unfolding C1p_def by (rule atan2_polar(1) [OF n1, symmetric])
    also have "\<dots> = C2p * cos (atan2 (lab_b lab2) a2p)"
      by (simp add: Ceq th)
    also have "\<dots> = a2p"
      unfolding C2p_def by (rule atan2_polar(1) [OF n2])
    finally have a: "a1p = a2p" .
    have "lab_b lab1 = C1p * sin (atan2 (lab_b lab1) a1p)"
      unfolding C1p_def by (rule atan2_polar(2) [OF n1, symmetric])
    also have "\<dots> = C2p * sin (atan2 (lab_b lab2) a2p)"
      by (simp add: Ceq th)
    also have "\<dots> = lab_b lab2"
      unfolding C2p_def by (rule atan2_polar(2) [OF n2])
    finally show ?thesis using a by simp
  qed
  then have "lab_a lab1 = lab_a lab2"
    using G by (simp add: a1p_def a2p_def)
  with L ab show ?thesis by simp
qed

lemma radicand2000_same: "radicand2000 l l = 0"
  by (simp add: radicand2000_def Let_def hueDelta_def weightedSum_def)

subsection \<open>The Lab conversion is one-to-one on 8-bit colours\<close>

text \<open>
  \<open>labF\<close> has a small step down at its threshold, so it is not one-to-one on the reals;
  two arguments with the same value are less than a millionth apart. The gamma expansion
  separates neighbouring 8-bit channel values by more than a ten-thousandth, and the
  matrix to XYZ cannot shrink such a gap to a millionth.
\<close>

lemma powr_14_gt:
  fixes p q :: real
  assumes "0 < p" "0 \<le> q" "q ^ 5 < p ^ 7"
  shows "q < p powr 1.4"
proof -
  have "p powr 1.4 = (p powr 7) powr (1 / 5)"
    by (simp add: powr_powr)
  also have "\<dots> = (p ^ 7) powr (1 / 5)"
    using assms(1) by simp
  finally have e: "p powr 1.4 = (p ^ 7) powr (1 / 5)" .
  have f: "q = (q ^ 5) powr (1 / 5)"
    by (rule root5_power5 [OF assms(2), symmetric])
  have "(q ^ 5) powr (1 / 5) < (p ^ 7) powr (1 / 5)"
    using assms by (intro powr_less_mono2) simp_all
  with e f show ?thesis by simp
qed

lemma cube_of_cube_root:
  fixes t :: real
  assumes "0 < t"
  shows "(t powr (1 / 3)) ^ 3 = t"
proof -
  have "(t powr (1 / 3)) ^ 3 = (t powr (1 / 3)) powr 3"
    by simp
  also have "\<dots> = t powr ((1 / 3) * 3)"
    by (rule powr_powr)
  finally show ?thesis using assms by simp
qed

text \<open>Two arguments with the same value of \<open>labF\<close> differ by less than a millionth.\<close>

lemma labF_cross:
  fixes s t :: real
  assumes s: "0 \<le> s" "s \<le> 0.008856" and t: "0.008856 < t"
    and eq: "(903.3 * s + 16) / 116 = t powr (1 / 3)"
  shows "\<bar>s - t\<bar> \<le> 1 / 1000000"
proof -
  define u where "u = (903.3 * s + 16) / 116"
  have u0: "0 \<le> u" using s by (simp add: u_def)
  have t3: "u ^ 3 = t"
    using cube_of_cube_root [of t] t eq by (simp add: u_def)
  have "u \<le> (903.3 * 0.008856 + 16) / 116"
    using s by (simp add: u_def)
  then have "u ^ 3 \<le> ((903.3 * 0.008856 + 16) / 116) ^ 3"
    using u0 by (rule power_mono)
  then have thi: "t \<le> 0.0088560366"
    using t3 by (simp add: divide_simps)
  have "0.20689 < u"
  proof (rule ccontr)
    assume "\<not> 0.20689 < u"
    then have "u \<le> 0.20689" by simp
    then have "u ^ 3 \<le> 0.20689 ^ 3"
      using u0 by (rule power_mono)
    then have "t \<le> 0.008856" using t3 by (simp add: divide_simps)
    with t show False by simp
  qed
  then have slo: "0.0088555 < s"
    by (simp add: u_def)
  from thi slo s t show ?thesis by (simp add: abs_if)
qed

lemma labF_close:
  assumes "0 \<le> s" "0 \<le> t" "labF s = labF t"
  shows "\<bar>s - t\<bar> \<le> 1 / 1000000"
proof -
  consider (low) "s \<le> 0.008856" "t \<le> 0.008856" | (high) "0.008856 < s" "0.008856 < t"
    | (st) "s \<le> 0.008856" "0.008856 < t" | (ts) "t \<le> 0.008856" "0.008856 < s"
    by linarith
  then show ?thesis
  proof cases
    case low
    with assms(3) have "s = t" by (simp add: labF_def)
    then show ?thesis by simp
  next
    case high
    with assms(3) have e: "s powr (1 / 3) = t powr (1 / 3)" by (simp add: labF_def)
    have sp: "0 < s" "0 < t" using high by simp_all
    have "s = (s powr (1 / 3)) ^ 3"
      by (rule cube_of_cube_root [OF sp(1), symmetric])
    also have "\<dots> = (t powr (1 / 3)) ^ 3"
      by (simp only: e)
    also have "\<dots> = t"
      by (rule cube_of_cube_root [OF sp(2)])
    finally show ?thesis by simp
  next
    case st
    with assms(3) have "(903.3 * s + 16) / 116 = t powr (1 / 3)" by (simp add: labF_def)
    then show ?thesis
      using st assms(1) by (intro labF_cross) simp_all
  next
    case ts
    with assms(3) have "(903.3 * t + 16) / 116 = s powr (1 / 3)" by (simp add: labF_def)
    then have "\<bar>t - s\<bar> \<le> 1 / 1000000"
      using ts assms(2) by (intro labF_cross) simp_all
    then show ?thesis by (simp add: abs_minus_commute)
  qed
qed

lemma labGamma_nonneg: "0 \<le> c \<Longrightarrow> 0 \<le> labGamma c"
  by (simp add: labGamma_def)

lemma powr_24_step:
  fixes a b :: real
  assumes "0 < a" "a \<le> b"
  shows "(b - a) * a powr 1.4 \<le> b powr 2.4 - a powr 2.4"
proof -
  have b: "0 < b" using assms by simp
  have split: "x powr 2.4 = x * x powr 1.4" if "0 < x" for x :: real
  proof -
    have "x powr 2.4 = x powr (1 + 1.4)" by simp
    also have "\<dots> = x powr 1 * x powr 1.4" by (rule powr_add)
    finally show ?thesis using that by simp
  qed
  have sa: "a powr 2.4 = a * a powr 1.4"
    by (rule split [OF assms(1)])
  have sb: "b powr 2.4 = b * b powr 1.4"
    by (rule split [OF b])
  have "a powr 1.4 \<le> b powr 1.4"
    using assms by (intro powr_mono2) simp_all
  then have "b * a powr 1.4 \<le> b * b powr 1.4"
    using b by (intro mult_left_mono) simp_all
  then show ?thesis
    unfolding sa sb by (simp add: algebra_simps)
qed

text \<open>The gamma expansion of one 8-bit step is at least a ten-thousandth.\<close>

lemma labGamma_low:
  fixes c :: nat
  assumes "c \<le> 10"
  shows "labGamma (real c / 255) = real c / 255 / 12.92"
proof -
  have "real c \<le> 10" using assms by simp
  then have "\<not> real c / 255 > 0.04045" by simp
  then show ?thesis by (simp add: labGamma_def)
qed

lemma labGamma_high:
  fixes c :: nat
  assumes "11 \<le> c"
  shows "labGamma (real c / 255) = ((real c / 255 + 0.055) / 1.055) powr 2.4"
proof -
  have "11 \<le> real c" using assms by simp
  then have "real c / 255 > 0.04045" by simp
  then show ?thesis by (simp add: labGamma_def)
qed

lemma labGamma_11: "0.0032 < labGamma (real (11::nat) / 255)"
proof -
  have "(0.0032::real) < ((11 / 255 + 0.055) / 1.055) powr 2.4"
    by (rule powr_24_gt) (simp_all add: divide_simps)
  then show ?thesis
    using labGamma_high [of 11] by simp
qed

lemma labGamma_step:
  fixes c :: nat
  shows "1 / 10000 \<le> labGamma (real (Suc c) / 255) - labGamma (real c / 255)"
proof -
  consider (low) "Suc c \<le> 10" | (mid) "c = 10" | (high) "11 \<le> c"
    by linarith
  then show ?thesis
  proof cases
    case low
    then have "c \<le> 10" by simp
    then show ?thesis
      using labGamma_low [of c] labGamma_low [OF low] by (simp add: field_simps)
  next
    case mid
    have "labGamma (real (10::nat) / 255) = 10 / 255 / 12.92"
      using labGamma_low [of 10] by simp
    then show ?thesis
      using labGamma_11 mid by simp
  next
    case high
    define a where "a = (real c / 255 + 0.055) / 1.055"
    define b where "b = (real (Suc c) / 255 + 0.055) / 1.055"
    have c11: "11 \<le> real c" using high by simp
    have a0: "(11 / 255 + 0.055) / 1.055 \<le> a"
      using c11 by (simp add: a_def)
    have apos: "0 < a"
      using c11 by (simp add: a_def)
    have ab: "b - a = 1 / 255 / 1.055"
      by (simp add: a_def b_def field_simps)
    have "(0.03::real) < ((11 / 255 + 0.055) / 1.055) powr 1.4"
      by (rule powr_14_gt) (simp_all add: divide_simps)
    also have "\<dots> \<le> a powr 1.4"
      using a0 by (intro powr_mono2) simp_all
    finally have a14: "0.03 < a powr 1.4" .
    have "1 / 10000 \<le> (1 / 255 / 1.055) * (0.03::real)"
      by simp
    also have "\<dots> \<le> (1 / 255 / 1.055) * a powr 1.4"
      using a14 by (intro mult_left_mono) simp_all
    also have "\<dots> = (b - a) * a powr 1.4"
      by (simp only: ab)
    also have "\<dots> \<le> b powr 2.4 - a powr 2.4"
      using apos ab by (intro powr_24_step) simp_all
    finally show ?thesis
      using labGamma_high [OF high] labGamma_high [of "Suc c"] high
      by (simp add: a_def b_def)
  qed
qed

lemma labGamma_gap:
  fixes c d :: nat
  assumes "c < d"
  shows "1 / 10000 \<le> labGamma (real d / 255) - labGamma (real c / 255)"
  using assms
proof (induction d)
  case 0
  then show ?case by simp
next
  case (Suc d)
  show ?case
  proof (cases "c = d")
    case True
    then show ?thesis using labGamma_step [of d] by simp
  next
    case False
    with Suc.prems have "c < d" by simp
    then have "1 / 10000 \<le> labGamma (real d / 255) - labGamma (real c / 255)"
      by (rule Suc.IH)
    then show ?thesis
      using labGamma_step [of d] by linarith
  qed
qed

lemma labGamma_separates:
  fixes c d :: nat
  assumes "\<bar>labGamma (real c / 255) - labGamma (real d / 255)\<bar> < 1 / 10000"
  shows "c = d"
proof (rule ccontr)
  assume "c \<noteq> d"
  then consider "c < d" | "d < c" by linarith
  then show False
  proof cases
    case 1
    from labGamma_gap [OF 1] assms show False by linarith
  next
    case 2
    from labGamma_gap [OF 2] assms show False by linarith
  qed
qed

text \<open>The matrix from linear RGB to XYZ is well-conditioned.\<close>

lemma xyz_matrix_scaled:
  fixes dr dg db :: real
  assumes "- 100 \<le> 4124564 * dr + 3575761 * dg + 1804375 * db"
    and "4124564 * dr + 3575761 * dg + 1804375 * db \<le> 100"
    and "- 100 \<le> 2126729 * dr + 7151522 * dg + 721750 * db"
    and "2126729 * dr + 7151522 * dg + 721750 * db \<le> 100"
    and "- 100 \<le> 193339 * dr + 1191920 * dg + 9503041 * db"
    and "193339 * dr + 1191920 * dg + 9503041 * db \<le> 100"
  shows "- 1 < 10000 * dr \<and> 10000 * dr < 1 \<and> - 1 < 10000 * dg \<and> 10000 * dg < 1
    \<and> - 1 < 10000 * db \<and> 10000 * db < 1"
  using assms by linarith

lemma xyz_matrix_bound:
  fixes dr dg db :: real
  assumes "\<bar>0.4124564 * dr + 0.3575761 * dg + 0.1804375 * db\<bar> \<le> 1 / 100000"
    and "\<bar>0.2126729 * dr + 0.7151522 * dg + 0.0721750 * db\<bar> \<le> 1 / 100000"
    and "\<bar>0.0193339 * dr + 0.1191920 * dg + 0.9503041 * db\<bar> \<le> 1 / 100000"
  shows "\<bar>dr\<bar> < 1 / 10000 \<and> \<bar>dg\<bar> < 1 / 10000 \<and> \<bar>db\<bar> < 1 / 10000"
proof -
  have "- 100 \<le> 4124564 * dr + 3575761 * dg + 1804375 * db"
    and "4124564 * dr + 3575761 * dg + 1804375 * db \<le> 100"
    using assms(1) unfolding abs_le_iff by (simp_all add: field_simps)
  moreover have "- 100 \<le> 2126729 * dr + 7151522 * dg + 721750 * db"
    and "2126729 * dr + 7151522 * dg + 721750 * db \<le> 100"
    using assms(2) unfolding abs_le_iff by (simp_all add: field_simps)
  moreover have "- 100 \<le> 193339 * dr + 1191920 * dg + 9503041 * db"
    and "193339 * dr + 1191920 * dg + 9503041 * db \<le> 100"
    using assms(3) unfolding abs_le_iff by (simp_all add: field_simps)
  ultimately have "- 1 < 10000 * dr \<and> 10000 * dr < 1 \<and> - 1 < 10000 * dg \<and> 10000 * dg < 1
    \<and> - 1 < 10000 * db \<and> 10000 * db < 1"
    by (rule xyz_matrix_scaled)
  then show ?thesis
    unfolding abs_less_iff by (simp add: field_simps)
qed

lemma abs_scale:
  fixes d k e e' :: real
  assumes "\<bar>d\<bar> \<le> e" "0 \<le> k" "e * k \<le> e'"
  shows "\<bar>d * k\<bar> \<le> e'"
proof -
  have "\<bar>d * k\<bar> = \<bar>d\<bar> * k"
    using assms(2) by (simp add: abs_mult)
  also have "\<dots> \<le> e * k"
    using assms(1,2) by (rule mult_right_mono)
  finally show ?thesis using assms(3) by simp
qed

lemma rgbToLab_inj:
  assumes "rgbToLab (Some c1) = rgbToLab (Some c2)"
  shows "c1 = c2"
proof -
  define r1 where "r1 = labGamma (real (rgb_r c1) / 255)"
  define g1 where "g1 = labGamma (real (rgb_g c1) / 255)"
  define b1 where "b1 = labGamma (real (rgb_b c1) / 255)"
  define r2 where "r2 = labGamma (real (rgb_r c2) / 255)"
  define g2 where "g2 = labGamma (real (rgb_g c2) / 255)"
  define b2 where "b2 = labGamma (real (rgb_b c2) / 255)"
  define x1 where "x1 = (r1 * 100 * 0.4124564 + g1 * 100 * 0.3575761 + b1 * 100 * 0.1804375) / 95.047"
  define y1 where "y1 = (r1 * 100 * 0.2126729 + g1 * 100 * 0.7151522 + b1 * 100 * 0.0721750) / 100.000"
  define z1 where "z1 = (r1 * 100 * 0.0193339 + g1 * 100 * 0.1191920 + b1 * 100 * 0.9503041) / 108.883"
  define x2 where "x2 = (r2 * 100 * 0.4124564 + g2 * 100 * 0.3575761 + b2 * 100 * 0.1804375) / 95.047"
  define y2 where "y2 = (r2 * 100 * 0.2126729 + g2 * 100 * 0.7151522 + b2 * 100 * 0.0721750) / 100.000"
  define z2 where "z2 = (r2 * 100 * 0.0193339 + g2 * 100 * 0.1191920 + b2 * 100 * 0.9503041) / 108.883"
  have nn: "0 \<le> r1" "0 \<le> g1" "0 \<le> b1" "0 \<le> r2" "0 \<le> g2" "0 \<le> b2"
    by (simp_all add: r1_def g1_def b1_def r2_def g2_def b2_def labGamma_nonneg)
  have l1: "rgbToLab (Some c1) =
      Some \<lparr>lab_L = 116 * labF y1 - 16, lab_a = 500 * (labF x1 - labF y1),
            lab_b = 200 * (labF y1 - labF z1)\<rparr>"
    unfolding rgbToLab_def Let_def x1_def y1_def z1_def r1_def g1_def b1_def by simp
  have l2: "rgbToLab (Some c2) =
      Some \<lparr>lab_L = 116 * labF y2 - 16, lab_a = 500 * (labF x2 - labF y2),
            lab_b = 200 * (labF y2 - labF z2)\<rparr>"
    unfolding rgbToLab_def Let_def x2_def y2_def z2_def r2_def g2_def b2_def by simp
  from assms have f: "labF y1 = labF y2" "labF x1 = labF x2" "labF z1 = labF z2"
    unfolding l1 l2 by simp_all
  have pos: "0 \<le> x1" "0 \<le> y1" "0 \<le> z1" "0 \<le> x2" "0 \<le> y2" "0 \<le> z2"
    using nn by (simp_all add: x1_def y1_def z1_def x2_def y2_def z2_def)
  have cx: "\<bar>x1 - x2\<bar> \<le> 1 / 1000000"
    by (rule labF_close [OF pos(1) pos(4) f(2)])
  have cy: "\<bar>y1 - y2\<bar> \<le> 1 / 1000000"
    by (rule labF_close [OF pos(2) pos(5) f(1)])
  have cz: "\<bar>z1 - z2\<bar> \<le> 1 / 1000000"
    by (rule labF_close [OF pos(3) pos(6) f(3)])
  define dr where "dr = r1 - r2"
  define dg where "dg = g1 - g2"
  define db where "db = b1 - b2"
  have ex: "0.4124564 * dr + 0.3575761 * dg + 0.1804375 * db = (x1 - x2) * 0.95047"
    by (simp add: x1_def x2_def dr_def dg_def db_def field_simps)
  have ey: "0.2126729 * dr + 0.7151522 * dg + 0.0721750 * db = (y1 - y2)"
    by (simp add: y1_def y2_def dr_def dg_def db_def field_simps)
  have ez: "0.0193339 * dr + 0.1191920 * dg + 0.9503041 * db = (z1 - z2) * 1.08883"
    by (simp add: z1_def z2_def dr_def dg_def db_def field_simps)
  have "\<bar>(x1 - x2) * 0.95047\<bar> \<le> 1 / 100000"
    by (rule abs_scale [OF cx]) simp_all
  moreover have "\<bar>y1 - y2\<bar> \<le> 1 / 100000"
    using cy by simp
  moreover have "\<bar>(z1 - z2) * 1.08883\<bar> \<le> 1 / 100000"
    by (rule abs_scale [OF cz]) simp_all
  ultimately have "\<bar>dr\<bar> < 1 / 10000 \<and> \<bar>dg\<bar> < 1 / 10000 \<and> \<bar>db\<bar> < 1 / 10000"
    unfolding ex [symmetric] ey [symmetric] ez [symmetric] by (rule xyz_matrix_bound)
  then have "rgb_r c1 = rgb_r c2" "rgb_g c1 = rgb_g c2" "rgb_b c1 = rgb_b c2"
    unfolding dr_def dg_def db_def r1_def g1_def b1_def r2_def g2_def b2_def
    by (simp_all add: labGamma_separates)
  then show ?thesis by simp
qed

text \<open>
  C7. For two strings that parse to RGB triplets, \<open>deltaE2000\<close> is 0 exactly when the
  two triplets are the same; in particular it is 0 for a colour and itself.
\<close>

theorem deltaE2000_zero_iff_same_color:
  assumes "hexToRgb hex1 = Some c1" and "hexToRgb hex2 = Some c2"
  shows "(deltaE2000 hex1 hex2 = Fin 0 \<longleftrightarrow> c1 = c2) \<and> deltaE2000 hex1 hex1 = Fin 0"
proof -
  obtain l1 where l1: "rgbToLab (Some c1) = Some l1"
    by (simp add: rgbToLab_def Let_def)
  obtain l2 where l2: "rgbToLab (Some c2) = Some l2"
    by (simp add: rgbToLab_def Let_def)
  have d: "deltaE2000 hex1 hex2 = Fin (sqrt (radicand2000 l1 l2))"
    by (simp add: deltaE2000_def assms l1 l2)
  have same: "deltaE2000 hex1 hex1 = Fin 0"
    by (simp add: deltaE2000_def assms l1 radicand2000_same)
  have "deltaE2000 hex1 hex2 = Fin 0 \<longleftrightarrow> radicand2000 l1 l2 = 0"
    by (simp add: d)
  also have "\<dots> \<longleftrightarrow> l1 = l2"
    using radicand2000_zero_imp_equal [of l1 l2] radicand2000_same [of l1] by auto
  also have "\<dots> \<longleftrightarrow> c1 = c2"
    using rgbToLab_inj [of c1 c2] l1 l2 by auto
  finally show ?thesis using same by simp
qed

theorem deltaE2000_zero_iff_same_color_witness:
  "deltaE2000 ''#abc'' ''#AABBCC'' = Fin 0 \<and> deltaE2000 ''#000000'' ''#010101'' \<noteq> Fin 0"
  using deltaE2000_zero_iff_same_color
          [of "''#abc''" "\<lparr>rgb_r = 170, rgb_g = 187, rgb_b = 204\<rparr>"
              "''#AABBCC''" "\<lparr>rgb_r = 170, rgb_g = 187, rgb_b = 204\<rparr>"]
        deltaE2000_zero_iff_same_color
          [of "''#000000''" "\<lparr>rgb_r = 0, rgb_g = 0, rgb_b = 0\<rparr>"
              "''#010101''" "\<lparr>rgb_r = 1, rgb_g = 1, rgb_b = 1\<rparr>"]
  by (simp add: hex_eval)

subsection \<open>The distance of \<open>#010101\<close> from black\<close>

lemma rgbToLab_black:
  "rgbToLab (Some \<lparr>rgb_r = 0, rgb_g = 0, rgb_b = 0\<rparr>) = Some \<lparr>lab_L = 0, lab_a = 0, lab_b = 0\<rparr>"
  by (simp add: rgbToLab_def labGamma_def labF_def Let_def)

lemma rgbToLab_010101:
  "\<exists>l. rgbToLab (Some \<lparr>rgb_r = 1, rgb_g = 1, rgb_b = 1\<rparr>) = Some l
       \<and> \<bar>lab_L l\<bar> < 1 \<and> \<bar>lab_a l\<bar> < 1 \<and> \<bar>lab_b l\<bar> < 1"
  by (simp add: rgbToLab_def labGamma_def labF_def Let_def)

lemma square_div_le:
  fixes d s :: real
  assumes "1 \<le> s"
  shows "(d / (1 * s))\<^sup>2 \<le> d\<^sup>2"
proof -
  have "\<bar>d\<bar> * 1 \<le> \<bar>d\<bar> * s"
    using assms by (intro mult_left_mono) simp_all
  then have "\<bar>d / s\<bar> \<le> \<bar>d\<bar>"
    using assms by (simp add: divide_le_eq)
  then have "(d / s)\<^sup>2 \<le> d\<^sup>2"
    by (simp only: abs_le_square_iff)
  then show ?thesis by simp
qed

lemma weightedSum_no_hue:
  assumes "0 \<le> Cp"
  shows "weightedSum dLp dCp 0 Lp Cp Hp \<le> dLp\<^sup>2 + dCp\<^sup>2"
proof -
  have "(dLp / (1 * termSL Lp))\<^sup>2 \<le> dLp\<^sup>2"
    by (rule square_div_le) (rule termSL_ge1)
  moreover have "(dCp / (1 * termSC Cp))\<^sup>2 \<le> dCp\<^sup>2"
    by (rule square_div_le) (rule termSC_ge1 [OF assms])
  ultimately show ?thesis
    by (simp add: weightedSum_def Let_def)
qed

lemma radicand2000_black:
  "radicand2000 l \<lparr>lab_L = 0, lab_a = 0, lab_b = 0\<rparr>
     \<le> (lab_L l)\<^sup>2 + (9 / 4) * (lab_a l)\<^sup>2 + (lab_b l)\<^sup>2"
proof -
  define G where "G = compensationG ((chroma (lab_a l) (lab_b l) + 0) / 2)"
  define C1p where "C1p = chroma (lab_a l * (1 + G)) (lab_b l)"
  have G: "0 < G" "G \<le> 1 / 2"
    unfolding G_def by (rule compensationG_bounds, simp add: chroma_nonneg)+
  have C1p: "0 \<le> C1p" by (simp add: C1p_def chroma_nonneg)
  have "radicand2000 l \<lparr>lab_L = 0, lab_a = 0, lab_b = 0\<rparr>
      = weightedSum (0 - lab_L l) (0 - C1p) 0 ((lab_L l + 0) / 2) ((C1p + 0) / 2)
          (hueMean C1p 0 (hueAdj (lab_b l) (lab_a l * (1 + G))) (hueAdj 0 0))"
    by (simp add: radicand2000_def Let_def chroma_def [of 0 0] hueDelta_def G_def C1p_def)
  also have "\<dots> \<le> (0 - lab_L l)\<^sup>2 + (0 - C1p)\<^sup>2"
    by (rule weightedSum_no_hue) (use C1p in simp)
  also have "\<dots> = (lab_L l)\<^sup>2 + ((lab_a l * (1 + G))\<^sup>2 + (lab_b l)\<^sup>2)"
    by (simp add: C1p_def chroma_def power2_eq_square)
  also have "\<dots> \<le> (lab_L l)\<^sup>2 + ((9 / 4) * (lab_a l)\<^sup>2 + (lab_b l)\<^sup>2)"
  proof -
    have "(1 + G)\<^sup>2 \<le> (3 / 2)\<^sup>2"
      using G by (intro power_mono) simp_all
    then have "(lab_a l)\<^sup>2 * (1 + G)\<^sup>2 \<le> (lab_a l)\<^sup>2 * (9 / 4)"
      by (intro mult_left_mono) (simp_all add: power2_eq_square)
    then show ?thesis by (simp add: power_mult_distrib mult.commute)
  qed
  finally show ?thesis by simp
qed

lemma deltaE2000_010101_black: "lessThan5 (deltaE2000 ''#010101'' ''#000000'')"
proof -
  obtain l where l: "rgbToLab (Some \<lparr>rgb_r = 1, rgb_g = 1, rgb_b = 1\<rparr>) = Some l"
    and b: "\<bar>lab_L l\<bar> < 1" "\<bar>lab_a l\<bar> < 1" "\<bar>lab_b l\<bar> < 1"
    using rgbToLab_010101 by blast
  have sq: "(lab_L l)\<^sup>2 < 1" "(lab_a l)\<^sup>2 < 1" "(lab_b l)\<^sup>2 < 1"
    using b by (simp_all add: abs_square_less_1)
  have "radicand2000 l \<lparr>lab_L = 0, lab_a = 0, lab_b = 0\<rparr> < 25"
    using radicand2000_black [of l] sq by linarith
  then have "sqrt (radicand2000 l \<lparr>lab_L = 0, lab_a = 0, lab_b = 0\<rparr>) < sqrt 25"
    by (simp only: real_sqrt_less_iff)
  then have "sqrt (radicand2000 l \<lparr>lab_L = 0, lab_a = 0, lab_b = 0\<rparr>) < 5"
    by simp
  moreover have "deltaE2000 ''#010101'' ''#000000''
      = Fin (sqrt (radicand2000 l \<lparr>lab_L = 0, lab_a = 0, lab_b = 0\<rparr>))"
    using l by (simp add: deltaE2000_def hex_eval rgbToLab_black)
  ultimately show ?thesis by simp
qed


section \<open>The matching loops\<close>

subsection \<open>Colours\<close>



lemma colorLoop_append:
  "colorLoop refs (ps @ qs) = foldl (colorStep refs) (colorLoop refs ps) qs"
  by (simp add: colorLoop_def)









subsection \<open>Spacing\<close>



lemma spacingLoop_append:
  "spacingLoop refs (ps @ qs) = foldl (spacingStep refs) (spacingLoop refs ps) qs"
  by (simp add: spacingLoop_def)








subsection \<open>Order of the tests and claims\<close>




section \<open>\<open>normalizeColor\<close> on other syntax\<close>

text \<open>White space that is not ASCII is trimmed and skipped like a space.\<close>

lemma normalizeColor_no_break_space:
  "normalizeColor toLowerCaseAscii (StringArg (160 # units ''Red'')) = Inr (JsString (units ''#ff0000''))
   \<and> normalizeColor toLowerCaseAscii (StringArg (units ''rgb(1,'' @ 160 # units ''2,3)''))
       = Inr (JsString (units ''#010203''))"
  by (simp add: normalize_eval)

text \<open>An argument whose conversion to a string throws makes the function throw.\<close>

lemma normalizeColor_throws: "normalizeColor lower (OtherArg None) = Inl Thrown"
  by (simp add: normalizeColor_def stringOfArg_def)

text \<open>
  C5, as the code behaves. On a string argument \<open>normalizeColor\<close> never throws, whatever
  the string and whatever the case mapping. It returns \<open>null\<close> for every string that,
  trimmed and lower-cased, has no match of the rgb pattern, does not start with \<open>#\<close>,
  is no colour name of the table (or is \<open>transparent\<close>), and is none of the two property
  names the table inherits. A string that starts with \<open>#\<close> and has no match of the rgb
  pattern is returned as a string, whatever code units follow the \<open>#\<close>: doubled when it
  has four code units, cut to seven code units otherwise.
\<close>

theorem normalizeColor_null_cases:
  "(rgbMatch (lower (trim color)) = None
      \<and> take 1 (lower (trim color)) \<noteq> units ''#''
      \<and> map_of namedUnits (lower (trim color)) \<in> {None, Some None}
      \<and> lower (trim color) \<notin> set inheritedNames
    \<longrightarrow> normalizeColor lower (StringArg color) = Inr JsNull)
   \<and> (color \<noteq> [] \<and> rgbMatch (lower (trim color)) = None
      \<and> take 1 (lower (trim color)) = units ''#''
    \<longrightarrow> normalizeColor lower (StringArg color) =
        Inr (if length (lower (trim color)) = 4
             then JsString (units ''#'' @ [lower (trim color) ! 1, lower (trim color) ! 1,
                                          lower (trim color) ! 2, lower (trim color) ! 2,
                                          lower (trim color) ! 3, lower (trim color) ! 3])
             else JsString (take 7 (lower (trim color)))))
   \<and> (\<exists>v. normalizeColor lower (StringArg color) = Inr v)"
  by (auto simp: normalizeColor_def stringOfArg_def normalizeString_def namedLookup_def Let_def)

theorem normalizeColor_null_cases_witness:
  "normalizeColor toLowerCaseAscii (StringArg (units ''Foo '')) = Inr JsNull
   \<and> normalizeColor toLowerCaseAscii (StringArg (units ''#zzzzzzzz''))
       = Inr (JsString (units ''#zzzzzz''))"
  using normalizeColor_null_cases [of toLowerCaseAscii "units ''Foo ''"]
        normalizeColor_null_cases [of toLowerCaseAscii "units ''#zzzzzzzz''"]
  by (simp add: units_def toLowerCaseAscii_def trim_def isWhiteSpace_def
        rgbMatchAt_def stripPrefix_def namedUnits_def named_def inheritedNames_def)

text \<open>
  C5, as stated. \<open>#zzzzzz\<close> is no hex colour (\<open>hexToRgb\<close> rejects it), has no match of
  the rgb pattern and is no colour name, and \<open>normalizeColor\<close> returns it unchanged, not
  \<open>null\<close>.
\<close>

theorem normalizeColor_unvalidated_hex_counterexample:
  "hexToRgb ''#zzzzzz'' = None
   \<and> rgbMatch (units ''#zzzzzz'') = None
   \<and> map_of namedUnits (units ''#zzzzzz'') = None
   \<and> normalizeColor toLowerCaseAscii (StringArg (units ''#zzzzzz''))
       = Inr (JsString (units ''#zzzzzz''))"
  by (simp add: normalize_eval hexToRgb_def expand3_def hexDigit_def)


section \<open>Matching on concrete inputs\<close>

lemma filterBoolean_member: "s \<in> set (filterBoolean vs) \<Longrightarrow> Some s \<in> set vs"
  by (induction vs) (auto simp: filterBoolean_def split: option.splits if_splits)

lemma filterBoolean_distinct: "distinct vs \<Longrightarrow> distinct (filterBoolean vs)"
proof (induction vs)
  case Nil
  show ?case by (simp add: filterBoolean_def)
next
  case (Cons v vs)
  have tail: "filterBoolean (v # vs) =
      (case v of None \<Rightarrow> [] | Some s \<Rightarrow> if s = [] then [] else [s]) @ filterBoolean vs"
    by (simp add: filterBoolean_def)
  from Cons have d: "distinct (filterBoolean vs)" and v: "v \<notin> set vs"
    by simp_all
  show ?case
    unfolding tail using d v filterBoolean_member [of _ vs]
    by (auto split: option.splits)
qed

lemma allRefColors_distinct: "distinct (allRefColors_of referenceColors)"
  unfolding allRefColors_of_def Let_def
  by (rule filterBoolean_distinct) (simp add: uniqueValues_def)

text \<open>
  C3, as the code behaves. The reference list is deduplicated before matching: it never
  holds a value twice. So a palette that holds \<open>#000000\<close> twice is compared as the one
  value \<open>#000000\<close>: against the project colour \<open>#000000\<close> there is exactly one exact
  match and no missing entry.
\<close>

theorem duplicate_reference_is_compared_once:
  "distinct (allRefColors_of referenceColors)
   \<and> colors_exact (compareColors [(''primary'', ''#000000'')]
      \<lparr>palette = Some [\<lparr>entry_value = Some ''#000000'', entry_count = 1\<rparr>,
                        \<lparr>entry_value = Some ''#000000'', entry_count = 1\<rparr>],
       semantic = None\<rparr>) = [\<lparr>project = ''#000000'', reference = ''#000000''\<rparr>]
   \<and> colors_missing (compareColors [(''primary'', ''#000000'')]
      \<lparr>palette = Some [\<lparr>entry_value = Some ''#000000'', entry_count = 1\<rparr>,
                        \<lparr>entry_value = Some ''#000000'', entry_count = 1\<rparr>],
       semantic = None\<rparr>) = []"
  using allRefColors_distinct [of referenceColors] by (simp add: colors_eval)

text \<open>
  C3, as stated: one exact match and one missing entry. The missing list is empty.
\<close>

theorem duplicate_reference_counterexample:
  "\<not> (length (colors_exact (compareColors [(''primary'', ''#000000'')]
          \<lparr>palette = Some [\<lparr>entry_value = Some ''#000000'', entry_count = 1\<rparr>,
                            \<lparr>entry_value = Some ''#000000'', entry_count = 1\<rparr>],
           semantic = None\<rparr>)) = 1
      \<and> length (colors_missing (compareColors [(''primary'', ''#000000'')]
          \<lparr>palette = Some [\<lparr>entry_value = Some ''#000000'', entry_count = 1\<rparr>,
                            \<lparr>entry_value = Some ''#000000'', entry_count = 1\<rparr>],
           semantic = None\<rparr>)) = 1)"
  by (simp add: colors_eval)

text \<open>
  C2. A project spacing list that holds \<open>10px\<close> twice, against the reference scale
  \<open>[10px]\<close>, is scored 200: both project values are exact matches of the one reference
  value.
\<close>

theorem spacing_score_exceeds_100:
  "spacing_score (compareSpacing [StringToken ''10px'', StringToken ''10px'']
      \<lparr>scale = Some [StringToken ''10px'']\<rparr>) = 200"
  by (simp add: spacing_eval)

text \<open>
  C4. Reference palette \<open>[#000000, #ffffff]\<close> against the project colour \<open>#010101\<close>: no
  exact match, one similar match that pairs \<open>#010101\<close> with \<open>#000000\<close>, \<open>#ffffff\<close>
  missing, score 40; and \<open>deltaE2000(#000000, #010101) < 5\<close>.
\<close>

theorem near_black_is_similar_score_40:
  "colors_exact (compareColors [(''primary'', ''#010101'')]
      \<lparr>palette = Some [\<lparr>entry_value = Some ''#000000'', entry_count = 1\<rparr>,
                        \<lparr>entry_value = Some ''#ffffff'', entry_count = 1\<rparr>],
       semantic = None\<rparr>) = []
   \<and> map (\<lambda>e. (project e, reference e))
       (colors_similar (compareColors [(''primary'', ''#010101'')]
      \<lparr>palette = Some [\<lparr>entry_value = Some ''#000000'', entry_count = 1\<rparr>,
                        \<lparr>entry_value = Some ''#ffffff'', entry_count = 1\<rparr>],
       semantic = None\<rparr>)) = [(''#010101'', ''#000000'')]
   \<and> colors_missing (compareColors [(''primary'', ''#010101'')]
      \<lparr>palette = Some [\<lparr>entry_value = Some ''#000000'', entry_count = 1\<rparr>,
                        \<lparr>entry_value = Some ''#ffffff'', entry_count = 1\<rparr>],
       semantic = None\<rparr>) = [''#ffffff'']
   \<and> colors_score (compareColors [(''primary'', ''#010101'')]
      \<lparr>palette = Some [\<lparr>entry_value = Some ''#000000'', entry_count = 1\<rparr>,
                        \<lparr>entry_value = Some ''#ffffff'', entry_count = 1\<rparr>],
       semantic = None\<rparr>) = 40
   \<and> lessThan5 (deltaE2000 ''#000000'' ''#010101'')"
proof -
  have a: "lessThan5 (deltaE ''#010101'' ''#000000'')"
    unfolding deltaE_def by (rule deltaE2000_010101_black)
  have b: "lessThan5 (deltaE2000 ''#000000'' ''#010101'')"
    using deltaE2000_010101_black by (simp only: radicand2000_commute deltaE2000_commute)
  show ?thesis
    using a b by (simp add: colors_eval)
qed

end
